theory Spec2Isabelle
  imports Main
begin

section \<open>The query runner as a state-passing program\<close>

text \<open>
  The TypeScript query runners are classes whose methods read and write the fields
  \<^verbatim>\<open>isReleased\<close>, \<^verbatim>\<open>isTransactionActive\<close>, \<^verbatim>\<open>databaseConnection\<close> and
  \<^verbatim>\<open>databaseConnectionPromise\<close> and talk to a database driver. A method is modelled as a
  function from the runner's fields to a result and the new fields; a thrown error or a
  rejected promise is the \<open>Inl\<close> of the result, and the fields keep every write made
  before the throw. The driver, the connection pool and the subscribers of the
  broadcaster are collaborators outside the runner: their answers are the fields of the
  record \<open>Collaborators\<close>, over which every theorem quantifies.
\<close>

datatype error =
    QueryRunnerAlreadyReleasedError
  | TransactionAlreadyStartedError
  | TransactionNotStartedError
  | QueryFailedError string string
  | ConnectionIsNotSetError string
  | TypeORMError string
  | DriverError string
  | SubscriberError string
  | TypeError
  | NeverSettles

text \<open>
  \<open>QueryFailedError q cause\<close> carries the statement and the driver's error,
  \<open>DriverError\<close> is an error of the driver that the runner passes on unwrapped,
  \<open>SubscriberError\<close> the rejection of a promise a subscriber returned, \<open>TypeError\<close>
  the JavaScript error of reading or writing a property of \<^verbatim>\<open>undefined\<close> or
  \<^verbatim>\<open>null\<close>. \<open>NeverSettles\<close> stands for a
  promise that is neither resolved nor rejected: the caller that awaits it does not
  continue, and no \<^verbatim>\<open>catch\<close> sees it.
\<close>

datatype ReplicationMode = master | slave

datatype TransactionEvent =
    BeforeTransactionStart | AfterTransactionStart
  | BeforeTransactionCommit | AfterTransactionCommit
  | BeforeTransactionRollback | AfterTransactionRollback

type_synonym ObjectLiteral = "(string \<times> string) list"

record QueryRunner =
  isReleased :: bool
  isTransactionActive :: bool
  databaseConnection :: bool
  databaseConnectionPromise :: "string option option"
  mode :: ReplicationMode
  isDirty :: bool
  sent :: "string list"

text \<open>
  \<open>databaseConnection\<close> tells whether a handle is held. \<open>databaseConnectionPromise\<close> is
  \<open>None\<close> before the first \<^verbatim>\<open>connect()\<close>, \<open>Some None\<close> for a resolved and \<open>Some (Some e)\<close>
  for a rejected acquisition. \<open>sent\<close> lists the statements handed to the driver, oldest
  first; it is the observation "a statement was issued".
\<close>

record Collaborators =
  obtainMasterConnection :: "string option"
  obtainSlaveConnection :: "string option"
  isReplicated :: bool
  isConnected :: bool
  respond :: "string list \<Rightarrow> string \<Rightarrow> string + ObjectLiteral list"
  subscribers :: "TransactionEvent \<Rightarrow> string option"
  driver_database :: "string option"
  options_schema :: "string option"
  entityMetadatas_schema :: "string option list"

text \<open>
  \<open>obtainMasterConnection\<close> and \<open>obtainSlaveConnection\<close> are \<open>None\<close> when the pool hands
  out a connection and \<open>Some e\<close> when it rejects with \<open>e\<close>. \<open>respond log q\<close> is the
  driver's answer to the statement \<open>q\<close> after the statements \<open>log\<close>: \<open>Inl\<close> its error,
  \<open>Inr\<close> the rows. \<open>subscribers ev\<close> is \<open>Some e\<close> when a promise collected by the broadcast
  of \<open>ev\<close> rejects with \<open>e\<close>.
\<close>

type_synonym 'a io = "QueryRunner \<Rightarrow> (error + 'a) \<times> QueryRunner"

definition ret :: "'a \<Rightarrow> 'a io" where
  "ret a s = (Inr a, s)"

definition throw :: "error \<Rightarrow> 'a io" where
  "throw e s = (Inl e, s)"

definition andThen :: "'a io \<Rightarrow> ('a \<Rightarrow> 'b io) \<Rightarrow> 'b io" where
  "andThen m f s = (case m s of (Inl e, s') \<Rightarrow> (Inl e, s') | (Inr a, s') \<Rightarrow> f a s')"

definition broadcast :: "Collaborators \<Rightarrow> TransactionEvent \<Rightarrow> unit io" where
  "broadcast env ev s =
     (case subscribers env ev of
        Some e \<Rightarrow> (Inl (SubscriberError e), s)
      | None \<Rightarrow> (Inr (), s))"

text \<open>
  \<^verbatim>\<open>await Promise.all(calls.map(q => this.query(q)))\<close>: every call is started, in the
  order of the list, whether or not an earlier one fails; the awaited promise rejects
  with the first rejection. The driver answers the statements of one connection in the
  order it received them, so the first rejection is that of the first failing statement.
\<close>

fun promiseAll :: "(string \<Rightarrow> ObjectLiteral list io) \<Rightarrow> string list \<Rightarrow> unit io" where
  "promiseAll query [] s = (Inr (), s)"
| "promiseAll query (q # qs) s =
     (case query q s of
        (Inl e, s') \<Rightarrow> (Inl e, snd (promiseAll query qs s'))
      | (Inr _, s') \<Rightarrow> promiseAll query qs s')"

definition field :: "ObjectLiteral \<Rightarrow> string \<Rightarrow> string" where
  "field row k = (case map_of row k of Some v \<Rightarrow> v | None \<Rightarrow> ''undefined'')"

definition truthy :: "string option \<Rightarrow> bool" where
  "truthy v = (case v of None \<Rightarrow> False | Some x \<Rightarrow> x \<noteq> [])"

definition sq :: string where "sq = [CHR 0x27]"
definition bq :: string where "bq = [CHR 0x60]"
definition dq :: string where "dq = [CHR 0x22]"

subsection \<open>MysqlQueryRunner: connection, transactions, query\<close>

definition Mysql_connect :: "Collaborators \<Rightarrow> unit io" where
  "Mysql_connect env s =
     (if databaseConnection s then (Inr (), s)
      else case databaseConnectionPromise s of
        Some (Some e) \<Rightarrow> (Inl (DriverError e), s)
      | Some None \<Rightarrow> (Inr (), s\<lparr>databaseConnection := True\<rparr>)
      | None \<Rightarrow>
          (case (if mode s = slave \<and> isReplicated env
                 then obtainSlaveConnection env else obtainMasterConnection env) of
             Some e \<Rightarrow> (Inl (DriverError e), s\<lparr>databaseConnectionPromise := Some (Some e)\<rparr>)
           | None \<Rightarrow> (Inr (), s\<lparr>databaseConnectionPromise := Some None,
                                  databaseConnection := True\<rparr>)))"

definition Mysql_release :: "unit io" where
  "Mysql_release s = (Inr (), s\<lparr>isReleased := True\<rparr>)"

text \<open>
  \<^verbatim>\<open>query\<close> returns the payload the driver delivered; the wrapping of the payload into a
  \<^verbatim>\<open>QueryResult\<close> and the calls of the logger do not change the runner and are left out.
\<close>

definition Mysql_query :: "Collaborators \<Rightarrow> string \<Rightarrow> ObjectLiteral list io" where
  "Mysql_query env q s =
     (if isReleased s then (Inl QueryRunnerAlreadyReleasedError, s)
      else case Mysql_connect env s of
        (Inl e, s1) \<Rightarrow> (Inl e, s1)
      | (Inr _, s1) \<Rightarrow>
          (case respond env (sent s1) q of
             Inl err \<Rightarrow> (Inl (QueryFailedError q err), s1\<lparr>sent := sent s1 @ [q]\<rparr>)
           | Inr raw \<Rightarrow> (Inr raw, s1\<lparr>sent := sent s1 @ [q]\<rparr>)))"

definition Mysql_startTransaction :: "Collaborators \<Rightarrow> string option \<Rightarrow> unit io" where
  "Mysql_startTransaction env isolationLevel s =
     (if isTransactionActive s then (Inl TransactionAlreadyStartedError, s)
      else andThen (broadcast env BeforeTransactionStart) (\<lambda>_ s1.
        andThen
          (case isolationLevel of
             Some l \<Rightarrow>
               andThen (Mysql_query env (''SET TRANSACTION ISOLATION LEVEL '' @ l))
                 (\<lambda>_. Mysql_query env ''START TRANSACTION'')
           | None \<Rightarrow> Mysql_query env ''START TRANSACTION'')
          (\<lambda>_. broadcast env AfterTransactionStart)
          (s1\<lparr>isTransactionActive := True\<rparr>)) s)"

definition Mysql_commitTransaction :: "Collaborators \<Rightarrow> unit io" where
  "Mysql_commitTransaction env s =
     (if \<not> isTransactionActive s then (Inl TransactionNotStartedError, s)
      else andThen (broadcast env BeforeTransactionCommit) (\<lambda>_.
        andThen (Mysql_query env ''COMMIT'') (\<lambda>_ s2.
          broadcast env AfterTransactionCommit (s2\<lparr>isTransactionActive := False\<rparr>))) s)"

definition Mysql_rollbackTransaction :: "Collaborators \<Rightarrow> unit io" where
  "Mysql_rollbackTransaction env s =
     (if \<not> isTransactionActive s then (Inl TransactionNotStartedError, s)
      else andThen (broadcast env BeforeTransactionRollback) (\<lambda>_.
        andThen (Mysql_query env ''ROLLBACK'') (\<lambda>_ s2.
          broadcast env AfterTransactionRollback (s2\<lparr>isTransactionActive := False\<rparr>))) s)"

subsection \<open>MysqlQueryRunner: unique constraints\<close>

text \<open>
  The two arguments of \<^verbatim>\<open>createUniqueConstraint\<close> and \<^verbatim>\<open>dropUniqueConstraint\<close> are
  not read by the method bodies; they are kept as arguments of any type.
\<close>

definition Mysql_createUniqueConstraint :: "'t \<Rightarrow> 'u \<Rightarrow> unit io" where
  "Mysql_createUniqueConstraint tableOrName uniqueConstraint =
     throw (TypeORMError ''MySql does not support unique constraints. Use unique index instead.'')"

definition Mysql_dropUniqueConstraint :: "'t \<Rightarrow> 'u \<Rightarrow> unit io" where
  "Mysql_dropUniqueConstraint tableOrName uniqueOrName =
     throw (TypeORMError ''MySql does not support unique constraints. Use unique index instead.'')"

definition quote :: "string \<Rightarrow> string" where
  "quote x = sq @ x @ sq"

definition backtick :: "string \<Rightarrow> string" where
  "backtick x = bq @ x @ bq"

definition dquote :: "string \<Rightarrow> string" where
  "dquote x = dq @ x @ dq"

fun join :: "string \<Rightarrow> string list \<Rightarrow> string" where
  "join sep [] = []"
| "join sep [x] = x"
| "join sep (x # y # ys) = x @ sep @ join sep (y # ys)"

subsection \<open>MysqlQueryRunner: clearDatabase\<close>

definition Mysql_hasDatabase :: "Collaborators \<Rightarrow> string \<Rightarrow> bool io" where
  "Mysql_hasDatabase env database =
     andThen
       (Mysql_query env
          (''SELECT * FROM '' @ backtick ''INFORMATION_SCHEMA'' @ ''.'' @ backtick ''SCHEMATA''
           @ '' WHERE '' @ backtick ''SCHEMA_NAME'' @ '' = '' @ quote database))
       (\<lambda>result. ret (result \<noteq> []))"

text \<open>The body of the \<^verbatim>\<open>try\<close> block of \<^verbatim>\<open>clearDatabase\<close>.\<close>

definition Mysql_clearDatabase_try :: "Collaborators \<Rightarrow> string \<Rightarrow> unit io" where
  "Mysql_clearDatabase_try env dbName =
     andThen
       (Mysql_query env
          (''SELECT concat('' @ quote (''DROP VIEW IF EXISTS '' @ bq) @ '', table_schema, ''
           @ quote (bq @ ''.'' @ bq) @ '', table_name, '' @ quote bq @ '') AS '' @ backtick ''query''
           @ '' FROM '' @ backtick ''INFORMATION_SCHEMA'' @ ''.'' @ backtick ''VIEWS''
           @ '' WHERE '' @ backtick ''TABLE_SCHEMA'' @ '' = '' @ quote dbName))
       (\<lambda>dropViewQueries.
     andThen (promiseAll (Mysql_query env) (map (\<lambda>q. field q ''query'') dropViewQueries))
       (\<lambda>_.
     andThen (Mysql_query env ''SET FOREIGN_KEY_CHECKS = 0;'')
       (\<lambda>_.
     andThen
       (Mysql_query env
          (''SELECT concat('' @ quote (''DROP TABLE IF EXISTS '' @ bq) @ '', table_schema, ''
           @ quote (bq @ ''.'' @ bq) @ '', table_name, '' @ quote bq @ '') AS '' @ backtick ''query''
           @ '' FROM '' @ backtick ''INFORMATION_SCHEMA'' @ ''.'' @ backtick ''TABLES''
           @ '' WHERE '' @ backtick ''TABLE_SCHEMA'' @ '' = '' @ quote dbName))
       (\<lambda>dropQueries.
     andThen (promiseAll (Mysql_query env) (map (\<lambda>query. field query ''query'') dropQueries))
       (\<lambda>_.
     andThen (Mysql_query env ''SET FOREIGN_KEY_CHECKS = 1;'')
       (\<lambda>_. Mysql_commitTransaction env))))))"

text \<open>
  \<^verbatim>\<open>catch (error) { try { await this.rollbackTransaction(); } catch (rollbackError) { }
  throw error; }\<close>: the handler runs the rollback on the runner as the failed body left
  it, drops the rollback's own result and rethrows \<open>error\<close>.
\<close>

definition rollbackAndRethrow :: "unit io \<Rightarrow> unit io \<Rightarrow> unit io" where
  "rollbackAndRethrow body rollback s =
     (case body s of
        (Inr u, s') \<Rightarrow> (Inr u, s')
      | (Inl error, s') \<Rightarrow> (Inl error, snd (rollback s')))"

definition Mysql_clearDatabase :: "Collaborators \<Rightarrow> string option \<Rightarrow> unit io" where
  "Mysql_clearDatabase env database =
     (let dbName = (if truthy database then database else driver_database env) in
      if truthy dbName then
        andThen (Mysql_hasDatabase env (the dbName)) (\<lambda>isDatabaseExist.
          if \<not> isDatabaseExist then ret ()
          else andThen (Mysql_startTransaction env None) (\<lambda>_.
            rollbackAndRethrow (Mysql_clearDatabase_try env (the dbName))
              (Mysql_rollbackTransaction env)))
      else throw (TypeORMError ''Can not clear database. No database is specified''))"

subsection \<open>PostgresQueryRunner\<close>

definition Postgres_connect :: "Collaborators \<Rightarrow> unit io" where
  "Postgres_connect env s =
     (if databaseConnection s then (Inr (), s)
      else case databaseConnectionPromise s of
        Some (Some e) \<Rightarrow> (Inl (DriverError e), s)
      | Some None \<Rightarrow> (Inr (), s\<lparr>databaseConnection := True\<rparr>)
      | None \<Rightarrow>
          (case (if mode s = slave \<and> isReplicated env
                 then obtainSlaveConnection env else obtainMasterConnection env) of
             Some e \<Rightarrow> (Inl (DriverError e), s\<lparr>databaseConnectionPromise := Some (Some e)\<rparr>)
           | None \<Rightarrow> (Inr (), s\<lparr>databaseConnectionPromise := Some None,
                                  databaseConnection := True\<rparr>)))"

definition Postgres_release :: "unit io" where
  "Postgres_release s = (if isReleased s then (Inr (), s) else (Inr (), s\<lparr>isReleased := True\<rparr>))"

definition Postgres_query :: "Collaborators \<Rightarrow> string \<Rightarrow> ObjectLiteral list io" where
  "Postgres_query env q s =
     (if isReleased s then (Inl QueryRunnerAlreadyReleasedError, s)
      else case Postgres_connect env s of
        (Inl e, s1) \<Rightarrow> (Inl e, s1)
      | (Inr _, s1) \<Rightarrow>
          (case respond env (sent s1) q of
             Inl err \<Rightarrow> (Inl (QueryFailedError q err), s1\<lparr>sent := sent s1 @ [q]\<rparr>)
           | Inr raw \<Rightarrow> (Inr raw, s1\<lparr>sent := sent s1 @ [q]\<rparr>)))"

definition Postgres_startTransaction :: "Collaborators \<Rightarrow> string option \<Rightarrow> unit io" where
  "Postgres_startTransaction env isolationLevel s =
     (if isTransactionActive s then (Inl TransactionAlreadyStartedError, s)
      else andThen (broadcast env BeforeTransactionStart) (\<lambda>_ s1.
        andThen (Postgres_query env ''START TRANSACTION'') (\<lambda>_.
        andThen
          (case isolationLevel of
             Some l \<Rightarrow> andThen (Postgres_query env (''SET TRANSACTION ISOLATION LEVEL '' @ l))
                         (\<lambda>_. ret ())
           | None \<Rightarrow> ret ())
          (\<lambda>_. broadcast env AfterTransactionStart))
          (s1\<lparr>isTransactionActive := True\<rparr>)) s)"

definition Postgres_commitTransaction :: "Collaborators \<Rightarrow> unit io" where
  "Postgres_commitTransaction env s =
     (if \<not> isTransactionActive s then (Inl TransactionNotStartedError, s)
      else andThen (broadcast env BeforeTransactionCommit) (\<lambda>_.
        andThen (Postgres_query env ''COMMIT'') (\<lambda>_ s2.
          broadcast env AfterTransactionCommit (s2\<lparr>isTransactionActive := False\<rparr>))) s)"

definition Postgres_rollbackTransaction :: "Collaborators \<Rightarrow> unit io" where
  "Postgres_rollbackTransaction env s =
     (if \<not> isTransactionActive s then (Inl TransactionNotStartedError, s)
      else andThen (broadcast env BeforeTransactionRollback) (\<lambda>_.
        andThen (Postgres_query env ''ROLLBACK'') (\<lambda>_ s2.
          broadcast env AfterTransactionRollback (s2\<lparr>isTransactionActive := False\<rparr>))) s)"

text \<open>
  The schema list of \<^verbatim>\<open>clearDatabase\<close>: the distinct schemas of the entity metadata in
  their order, then the schema of the options or \<^verbatim>\<open>current_schema()\<close>.
\<close>

fun collectSchemas :: "string option list \<Rightarrow> string list \<Rightarrow> string list" where
  "collectSchemas [] schemas = schemas"
| "collectSchemas (m # ms) schemas =
     (if truthy m \<and> the m \<notin> set schemas then collectSchemas ms (schemas @ [the m])
      else collectSchemas ms schemas)"

definition schemaNamesString :: "Collaborators \<Rightarrow> string" where
  "schemaNamesString env =
     join '', ''
       (map (\<lambda>name. if name = ''current_schema()'' then name else quote name)
          (collectSchemas (entityMetadatas_schema env) []
           @ [if truthy (options_schema env) then the (options_schema env)
              else ''current_schema()'']))"

definition Postgres_dropEnumTypes :: "Collaborators \<Rightarrow> string \<Rightarrow> unit io" where
  "Postgres_dropEnumTypes env schemaNames =
     andThen
       (Postgres_query env
          (''SELECT '' @ quote (''DROP TYPE IF EXISTS '' @ dq) @ '' || n.nspname || ''
           @ quote (dq @ ''.'' @ dq) @ '' || t.typname || '' @ quote (dq @ '' CASCADE;'')
           @ '' as '' @ dquote ''query'' @ '' FROM '' @ dquote ''pg_type'' @ '' '' @ dquote ''t'' @ '' ''
           @ ''INNER JOIN '' @ dquote ''pg_enum'' @ '' '' @ dquote ''e'' @ '' ON '' @ dquote ''e''
           @ ''.'' @ dquote ''enumtypid'' @ '' = '' @ dquote ''t'' @ ''.'' @ dquote ''oid'' @ '' ''
           @ ''INNER JOIN '' @ dquote ''pg_namespace'' @ '' '' @ dquote ''n'' @ '' ON '' @ dquote ''n''
           @ ''.'' @ dquote ''oid'' @ '' = '' @ dquote ''t'' @ ''.'' @ dquote ''typnamespace'' @ '' ''
           @ ''WHERE '' @ dquote ''n'' @ ''.'' @ dquote ''nspname'' @ '' IN ('' @ schemaNames
           @ '') GROUP BY '' @ dquote ''n'' @ ''.'' @ dquote ''nspname'' @ '', '' @ dquote ''t''
           @ ''.'' @ dquote ''typname''))
       (\<lambda>dropQueries. promiseAll (Postgres_query env) (map (\<lambda>q. field q ''query'') dropQueries))"

definition Postgres_clearDatabase_try :: "Collaborators \<Rightarrow> string \<Rightarrow> unit io" where
  "Postgres_clearDatabase_try env names =
     andThen
       (Postgres_query env
          (''SELECT '' @ quote (''DROP VIEW IF EXISTS '' @ dq) @ '' || schemaname || ''
           @ quote (dq @ ''.'' @ dq) @ '' || viewname || '' @ quote (dq @ '' CASCADE;'')
           @ '' as '' @ dquote ''query'' @ '' '' @ ''FROM '' @ dquote ''pg_views'' @ '' WHERE ''
           @ dquote ''schemaname'' @ '' IN ('' @ names @ '') AND '' @ dquote ''viewname''
           @ '' NOT IN ('' @ quote ''geography_columns'' @ '', '' @ quote ''geometry_columns''
           @ '', '' @ quote ''raster_columns'' @ '', '' @ quote ''raster_overviews'' @ '')''))
       (\<lambda>dropViewQueries.
     andThen (promiseAll (Postgres_query env) (map (\<lambda>q. field q ''query'') dropViewQueries))
       (\<lambda>_.
     andThen
       (Postgres_query env
          (''SELECT '' @ quote (''DROP MATERIALIZED VIEW IF EXISTS '' @ dq) @ '' || schemaname || ''
           @ quote (dq @ ''.'' @ dq) @ '' || matviewname || '' @ quote (dq @ '' CASCADE;'')
           @ '' as '' @ dquote ''query'' @ '' '' @ ''FROM '' @ dquote ''pg_matviews'' @ '' WHERE ''
           @ dquote ''schemaname'' @ '' IN ('' @ names @ '')''))
       (\<lambda>dropMatViewQueries.
     andThen (promiseAll (Postgres_query env) (map (\<lambda>q. field q ''query'') dropMatViewQueries))
       (\<lambda>_.
     andThen
       (Postgres_query env
          (''SELECT '' @ quote (''DROP TABLE IF EXISTS '' @ dq) @ '' || schemaname || ''
           @ quote (dq @ ''.'' @ dq) @ '' || tablename || '' @ quote (dq @ '' CASCADE;'')
           @ '' as '' @ dquote ''query'' @ '' FROM '' @ dquote ''pg_tables'' @ '' WHERE ''
           @ dquote ''schemaname'' @ '' IN ('' @ names @ '') AND '' @ dquote ''tablename''
           @ '' NOT IN ('' @ quote ''spatial_ref_sys'' @ '')''))
       (\<lambda>dropTableQueries.
     andThen (promiseAll (Postgres_query env) (map (\<lambda>q. field q ''query'') dropTableQueries))
       (\<lambda>_.
     andThen (Postgres_dropEnumTypes env names)
       (\<lambda>_. Postgres_commitTransaction env)))))))"

definition Postgres_clearDatabase :: "Collaborators \<Rightarrow> unit io" where
  "Postgres_clearDatabase env =
     andThen (Postgres_startTransaction env None) (\<lambda>_.
       rollbackAndRethrow (Postgres_clearDatabase_try env (schemaNamesString env))
         (Postgres_rollbackTransaction env))"

subsection \<open>SqlServerQueryRunner\<close>

text \<open>
  The SQL Server runner holds no connection of its own: \<^verbatim>\<open>connect()\<close> resolves at once,
  a query takes the pool, and a transaction is an object of the driver whose
  \<^verbatim>\<open>begin\<close>, \<^verbatim>\<open>commit\<close> and \<^verbatim>\<open>rollback\<close> calls are recorded in \<open>sent\<close> under the
  texts the runner logs for them. \<open>SqlServer_query\<close> is the method as it runs when
  \<^verbatim>\<open>queryResponsibilityChain\<close> is empty at the call; the chain is the subject of the
  section on query admission.
\<close>

definition SqlServer_release :: "unit io" where
  "SqlServer_release s = (Inr (), s\<lparr>isReleased := True\<rparr>)"

definition SqlServer_pool :: "Collaborators \<Rightarrow> QueryRunner \<Rightarrow> string option" where
  "SqlServer_pool env s =
     (if mode s = slave then obtainSlaveConnection env else obtainMasterConnection env)"

definition SqlServer_query :: "Collaborators \<Rightarrow> string \<Rightarrow> ObjectLiteral list io" where
  "SqlServer_query env q s =
     (if isReleased s then (Inl QueryRunnerAlreadyReleasedError, s)
      else case SqlServer_pool env s of
        Some e \<Rightarrow> (Inl (DriverError e), s)
      | None \<Rightarrow>
          (case respond env (sent s) q of
             Inl err \<Rightarrow> (Inl (QueryFailedError q err), s\<lparr>sent := sent s @ [q]\<rparr>)
           | Inr raw \<Rightarrow> (Inr raw, s\<lparr>sent := sent s @ [q]\<rparr>)))"

text \<open>
  \<^verbatim>\<open>startTransaction\<close> returns \<^verbatim>\<open>new Promise(async (ok, fail) => ...)\<close>. The promise is
  settled by the callback of \<^verbatim>\<open>begin\<close> alone: when the pool rejects, the executor stops
  before \<^verbatim>\<open>begin\<close> and the promise never settles, and the promises of the after-start
  subscribers are awaited by the executor without a bearing on the result.
\<close>

definition SqlServer_startTransaction :: "Collaborators \<Rightarrow> string option \<Rightarrow> unit io" where
  "SqlServer_startTransaction env isolationLevel s =
     (if isReleased s then (Inl QueryRunnerAlreadyReleasedError, s)
      else if isTransactionActive s then (Inl TransactionAlreadyStartedError, s)
      else andThen (broadcast env BeforeTransactionStart) (\<lambda>_ s1.
        let s2 = s1\<lparr>isTransactionActive := True\<rparr> in
        case SqlServer_pool env s2 of
          Some e \<Rightarrow> (Inl NeverSettles, s2)
        | None \<Rightarrow>
            (let s3 = s2\<lparr>databaseConnection := True,
                         sent := sent s2 @ [''BEGIN TRANSACTION'']
                           @ (case isolationLevel of
                                Some l \<Rightarrow> [''SET TRANSACTION ISOLATION LEVEL '' @ l]
                              | None \<Rightarrow> [])\<rparr> in
             case respond env (sent s2) ''BEGIN TRANSACTION'' of
               Inl err \<Rightarrow> (Inl (DriverError err), s3\<lparr>isTransactionActive := False\<rparr>)
             | Inr _ \<Rightarrow> (Inr (), s3))) s)"

text \<open>
  \<^verbatim>\<open>commitTransaction\<close> and \<^verbatim>\<open>rollbackTransaction\<close> return
  \<^verbatim>\<open>new Promise((ok, fail) => { this.databaseConnection.commit(async (err) => ...) })\<close>.
  When no transaction object is held (\<^verbatim>\<open>startTransaction\<close> stopped at the pool, which
  leaves the flag set) the call of the method of \<^verbatim>\<open>this.databaseConnection\<close> throws
  inside the executor and the promise is rejected with that \<^verbatim>\<open>TypeError\<close>. Otherwise the
  callback settles the promise: with the driver's error, or, after the flag and the
  transaction object are cleared, when the promises of the after-subscribers are resolved;
  when one of those rejects, the callback stops before \<^verbatim>\<open>ok()\<close> and the promise never
  settles.
\<close>

definition SqlServer_commitTransaction :: "Collaborators \<Rightarrow> unit io" where
  "SqlServer_commitTransaction env s =
     (if isReleased s then (Inl QueryRunnerAlreadyReleasedError, s)
      else if \<not> isTransactionActive s then (Inl TransactionNotStartedError, s)
      else andThen (broadcast env BeforeTransactionCommit) (\<lambda>_ s1.
        if \<not> databaseConnection s1 then (Inl TypeError, s1)
        else case respond env (sent s1) ''COMMIT'' of
          Inl err \<Rightarrow> (Inl (DriverError err), s1\<lparr>sent := sent s1 @ [''COMMIT'']\<rparr>)
        | Inr _ \<Rightarrow>
            (let s2 = s1\<lparr>sent := sent s1 @ [''COMMIT''], isTransactionActive := False,
                         databaseConnection := False\<rparr> in
             case subscribers env AfterTransactionCommit of
               Some e \<Rightarrow> (Inl NeverSettles, s2)
             | None \<Rightarrow> (Inr (), s2))) s)"

definition SqlServer_rollbackTransaction :: "Collaborators \<Rightarrow> unit io" where
  "SqlServer_rollbackTransaction env s =
     (if isReleased s then (Inl QueryRunnerAlreadyReleasedError, s)
      else if \<not> isTransactionActive s then (Inl TransactionNotStartedError, s)
      else andThen (broadcast env BeforeTransactionRollback) (\<lambda>_ s1.
        if \<not> databaseConnection s1 then (Inl TypeError, s1)
        else case respond env (sent s1) ''ROLLBACK'' of
          Inl err \<Rightarrow> (Inl (DriverError err), s1\<lparr>sent := sent s1 @ [''ROLLBACK'']\<rparr>)
        | Inr _ \<Rightarrow>
            (let s2 = s1\<lparr>sent := sent s1 @ [''ROLLBACK''], isTransactionActive := False,
                         databaseConnection := False\<rparr> in
             case subscribers env AfterTransactionRollback of
               Some e \<Rightarrow> (Inl NeverSettles, s2)
             | None \<Rightarrow> (Inr (), s2))) s)"

subsection \<open>SqlServerQueryRunner: clearDatabase\<close>

text \<open>
  The values of a row are strings here; a key that is missing and the empty string stand
  for the values JavaScript takes as false. \<^verbatim>\<open>hasDatabase\<close> reads the first row of the
  result, and fails with a \<^verbatim>\<open>TypeError\<close> when there is none.
\<close>

definition SqlServer_hasDatabase :: "Collaborators \<Rightarrow> string \<Rightarrow> bool io" where
  "SqlServer_hasDatabase env database =
     andThen
       (SqlServer_query env (''SELECT DB_ID('' @ quote database @ '') as '' @ dquote ''db_id''))
       (\<lambda>result. case result of
                    [] \<Rightarrow> throw TypeError
                  | row # rows \<Rightarrow> ret (truthy (map_of row ''db_id'')))"

text \<open>
  The calls of \<^verbatim>\<open>query\<close> that \<^verbatim>\<open>clearDatabase\<close> makes in one \<^verbatim>\<open>Promise.all\<close> go through
  \<^verbatim>\<open>queryResponsibilityChain\<close> (section on query admission): the first sends its
  statement and every later one waits until those before it have been answered, so the
  statements reach the driver one at a time in the order of the calls, and
  \<^verbatim>\<open>Promise.all\<close> rejects with the error of the first statement that fails. Which of the
  statements still queued behind the failed one reach the driver depends on the chain and
  on the order of the continuations; they are sent, if at all, while the handler of
  \<^verbatim>\<open>clearDatabase\<close> runs or later, and \<open>sent\<close> leaves them out. \<open>SqlServer_queryAll\<close>
  drops the results, \<open>SqlServer_queryEach\<close> keeps them.
\<close>

fun SqlServer_queryAll :: "Collaborators \<Rightarrow> string list \<Rightarrow> unit io" where
  "SqlServer_queryAll env [] s = (Inr (), s)"
| "SqlServer_queryAll env (q # qs) s =
     (case SqlServer_query env q s of
        (Inl e, s') \<Rightarrow> (Inl e, s')
      | (Inr _, s') \<Rightarrow> SqlServer_queryAll env qs s')"

fun SqlServer_queryEach :: "Collaborators \<Rightarrow> string list \<Rightarrow> ObjectLiteral list list io" where
  "SqlServer_queryEach env [] s = (Inr [], s)"
| "SqlServer_queryEach env (q # qs) s =
     (case SqlServer_query env q s of
        (Inl e, s') \<Rightarrow> (Inl e, s')
      | (Inr result, s') \<Rightarrow>
          (case SqlServer_queryEach env qs s' of
             (Inl e, s'') \<Rightarrow> (Inl e, s'')
           | (Inr results, s'') \<Rightarrow> (Inr (result # results), s'')))"

definition SqlServer_allViewsSql :: "string option \<Rightarrow> string" where
  "SqlServer_allViewsSql database =
     (if truthy database
      then ''SELECT * FROM '' @ dquote (the database) @ ''.'' @ dquote ''INFORMATION_SCHEMA''
           @ ''.'' @ dquote ''VIEWS''
      else ''SELECT * FROM '' @ dquote ''INFORMATION_SCHEMA'' @ ''.'' @ dquote ''VIEWS'')"

definition SqlServer_allTablesSql :: "string option \<Rightarrow> string" where
  "SqlServer_allTablesSql database =
     (if truthy database
      then ''SELECT * FROM '' @ dquote (the database) @ ''.'' @ dquote ''INFORMATION_SCHEMA''
           @ ''.'' @ dquote ''TABLES'' @ '' WHERE '' @ dquote ''TABLE_TYPE'' @ '' = ''
           @ quote ''BASE TABLE''
      else ''SELECT * FROM '' @ dquote ''INFORMATION_SCHEMA'' @ ''.'' @ dquote ''TABLES''
           @ '' WHERE '' @ dquote ''TABLE_TYPE'' @ '' = '' @ quote ''BASE TABLE'')"

definition SqlServer_dropForeignKeySql :: "ObjectLiteral \<Rightarrow> string" where
  "SqlServer_dropForeignKeySql tablesResult =
     (let catalog = field tablesResult ''TABLE_CATALOG'' in
      ''SELECT '' @ sq @ ''ALTER TABLE '' @ dquote catalog @ ''.'' @ dq @ sq
      @ '' + OBJECT_SCHEMA_NAME('' @ dquote ''fk'' @ ''.'' @ dquote ''parent_object_id''
      @ '', DB_ID('' @ quote catalog @ '')) + '' @ sq @ dq @ ''.'' @ dq @ sq
      @ '' + OBJECT_NAME('' @ dquote ''fk'' @ ''.'' @ dquote ''parent_object_id''
      @ '', DB_ID('' @ quote catalog @ '')) + '' @ sq @ dq @ '' ''
      @ ''DROP CONSTRAINT '' @ dq @ sq @ '' + '' @ dquote ''fk'' @ ''.'' @ dquote ''name''
      @ '' + '' @ sq @ dq @ sq @ '' as '' @ dquote ''query'' @ '' FROM '' @ dquote catalog
      @ ''.'' @ dquote ''sys'' @ ''.'' @ dquote ''foreign_keys'' @ '' AS '' @ dquote ''fk'' @ '' ''
      @ ''WHERE '' @ dquote ''fk'' @ ''.'' @ dquote ''referenced_object_id'' @ '' = OBJECT_ID(''
      @ sq @ dquote catalog @ ''.'' @ dquote (field tablesResult ''TABLE_SCHEMA'') @ ''.''
      @ dquote (field tablesResult ''TABLE_NAME'') @ sq @ '')'')"

text \<open>
  The last \<^verbatim>\<open>Promise.all\<close> skips the temporary tables, whose names start with \<^verbatim>\<open>#\<close>. Its
  calls are made in one loop before any of them is awaited, and
  \<^verbatim>\<open>tablesResult["TABLE_NAME"].startsWith\<close> throws in that loop when a row has no
  \<^verbatim>\<open>TABLE_NAME\<close>; the calls made for the rows before it send their statements after the
  throw, and \<open>sent\<close> leaves them out as well.
\<close>

fun SqlServer_dropTableSqls :: "ObjectLiteral list \<Rightarrow> string list option" where
  "SqlServer_dropTableSqls [] = Some []"
| "SqlServer_dropTableSqls (tablesResult # rest) =
     (case map_of tablesResult ''TABLE_NAME'' of
        None \<Rightarrow> None
      | Some name \<Rightarrow>
          (case SqlServer_dropTableSqls rest of
             None \<Rightarrow> None
           | Some sqls \<Rightarrow>
               Some (if take 1 name = ''#'' then sqls
                     else (''DROP TABLE '' @ dquote (field tablesResult ''TABLE_CATALOG'') @ ''.''
                           @ dquote (field tablesResult ''TABLE_SCHEMA'') @ ''.''
                           @ dquote name) # sqls)))"

text \<open>
  The body of the \<^verbatim>\<open>try\<close> block. The second \<^verbatim>\<open>Promise.all\<close> asks for each table the
  statements that drop the foreign keys pointing to it and then runs them; the chain
  sends all the questions first, table by table, and then the statements of the first
  table, of the second, and so on.
\<close>

definition SqlServer_clearDatabase_try :: "Collaborators \<Rightarrow> string option \<Rightarrow> unit io" where
  "SqlServer_clearDatabase_try env database =
     andThen (SqlServer_query env (SqlServer_allViewsSql database))
       (\<lambda>allViewsResults.
     andThen
       (SqlServer_queryAll env
          (map (\<lambda>viewResult. ''DROP VIEW '' @ dquote (field viewResult ''TABLE_SCHEMA'') @ ''.''
                               @ dquote (field viewResult ''TABLE_NAME'')) allViewsResults))
       (\<lambda>_.
     andThen (SqlServer_query env (SqlServer_allTablesSql database))
       (\<lambda>allTablesResults.
     andThen (SqlServer_queryEach env (map SqlServer_dropForeignKeySql allTablesResults))
       (\<lambda>dropFkQueries.
     andThen
       (SqlServer_queryAll env (map (\<lambda>result. field result ''query'') (concat dropFkQueries)))
       (\<lambda>_.
     andThen
       (case SqlServer_dropTableSqls allTablesResults of
          None \<Rightarrow> throw TypeError
        | Some sqls \<Rightarrow> SqlServer_queryAll env sqls)
       (\<lambda>_. SqlServer_commitTransaction env))))))"

text \<open>
  The handler is that of the MySQL runner, \<^verbatim>\<open>catch (error) { try { await
  this.rollbackTransaction(); } catch (rollbackError) { } throw error; }\<close>, but on this
  runner an awaited promise may never settle. When the body does not settle the handler
  does not run, and when \<^verbatim>\<open>rollbackTransaction\<close> does not settle the handler does not
  reach \<^verbatim>\<open>throw error\<close>.
\<close>

definition SqlServer_rollbackAndRethrow :: "unit io \<Rightarrow> unit io \<Rightarrow> unit io" where
  "SqlServer_rollbackAndRethrow body rollback s =
     (case body s of
        (Inr u, s') \<Rightarrow> (Inr u, s')
      | (Inl error, s') \<Rightarrow>
          if error = NeverSettles then (Inl NeverSettles, s')
          else if fst (rollback s') = Inl NeverSettles then (Inl NeverSettles, snd (rollback s'))
          else (Inl error, snd (rollback s')))"

definition SqlServer_clearDatabase :: "Collaborators \<Rightarrow> string option \<Rightarrow> unit io" where
  "SqlServer_clearDatabase env database =
     (let clear = andThen (SqlServer_startTransaction env None) (\<lambda>_.
                    SqlServer_rollbackAndRethrow (SqlServer_clearDatabase_try env database)
                      (SqlServer_rollbackTransaction env))
      in if truthy database
         then andThen (SqlServer_hasDatabase env (the database)) (\<lambda>isDatabaseExist.
                if \<not> isDatabaseExist then ret () else clear)
         else clear)"

subsection \<open>SqlServerQueryRunner: query admission\<close>

text \<open>
  \<^verbatim>\<open>query\<close> of the SQL Server runner orders concurrent calls with the array
  \<^verbatim>\<open>queryResponsibilityChain\<close>. Each call creates two promises: \<^verbatim>\<open>waitingPromise\<close>, which
  only \<^verbatim>\<open>resolveChain\<close> resolves, and \<^verbatim>\<open>promise\<close>, which the callback of
  \<^verbatim>\<open>request.query\<close> resolves or rejects and which the call returns. JavaScript runs one
  piece of the method at a time, so the execution of several calls is a sequence of
  events, each run to its end on the fields of the runner:

    \<^item> \<open>Call i q\<close>, the \<open>i\<close>-th call of \<^verbatim>\<open>query(q)\<close>, up to \<^verbatim>\<open>await Promise.all\<close> when the chain
      is not empty and through the executor of \<^verbatim>\<open>promise\<close> otherwise;
    \<^item> \<open>Resume i\<close>, the continuation of call \<open>i\<close> after \<^verbatim>\<open>await Promise.all\<close>, which throws
      when one of the awaited promises is rejected, runs the executor when all are
      resolved, and is not due otherwise;
    \<^item> \<open>Callback i answer\<close>, the callback that the driver calls with its error (\<open>Inl\<close>) or
      its rows (\<open>Inr\<close>) for the statement of call \<open>i\<close>.

  The executor awaits the pool before it calls \<^verbatim>\<open>request.query\<close>, and the push of
  \<^verbatim>\<open>promise\<close> onto the chain runs in between; the three are one step here, since nothing
  else that the executor does before \<^verbatim>\<open>request.query\<close> reads or writes the chain. The
  statements that reached the driver are the field \<open>sent\<close> of the runner. The number \<open>i\<close>
  names a call and its two promises; a second \<open>Call\<close> under a number already in use is no
  event of the program and changes nothing.
\<close>

datatype Promise = waitingPromise nat | promise nat

datatype Settlement = Pending | Resolved | Rejected error

datatype Stage =
    NotCalled
  | AwaitsChain string "Promise list"
  | InFlight string
  | Returned "error + ObjectLiteral list"

text \<open>
  \<open>AwaitsChain q otherWaitingPromises\<close> is a call suspended at \<^verbatim>\<open>await Promise.all\<close>,
  \<open>InFlight q\<close> a call whose statement the driver has and has not answered,
  \<open>Returned r\<close> a call whose returned promise is settled with \<open>r\<close>.
\<close>

record Admission =
  runner :: QueryRunner
  queryResponsibilityChain :: "Promise list"
  settlement :: "Promise \<Rightarrow> Settlement"
  stage :: "nat \<Rightarrow> Stage"

datatype Event = Call nat string | Resume nat | Callback nat "string + ObjectLiteral list"

text \<open>
  \<^verbatim>\<open>Promise.all(ps)\<close>: rejected as soon as one of \<open>ps\<close> is rejected, resolved when all are
  resolved. Of several rejected promises the first of the list gives the reason.
\<close>

fun awaitAll :: "(Promise \<Rightarrow> Settlement) \<Rightarrow> Promise list \<Rightarrow> Settlement" where
  "awaitAll st [] = Resolved"
| "awaitAll st (p # ps) =
     (case st p of
        Rejected e \<Rightarrow> Rejected e
      | Resolved \<Rightarrow> awaitAll st ps
      | Pending \<Rightarrow> (case awaitAll st ps of Rejected e \<Rightarrow> Rejected e | _ \<Rightarrow> Pending))"

text \<open>\<^verbatim>\<open>xs.indexOf(x)\<close>, with \<open>None\<close> for \<^verbatim>\<open>-1\<close>, and \<^verbatim>\<open>xs.splice(k, 1)\<close>.\<close>

fun indexOf :: "'a list \<Rightarrow> 'a \<Rightarrow> nat option" where
  "indexOf [] x = None"
| "indexOf (y # ys) x = (if y = x then Some 0 else map_option Suc (indexOf ys x))"

definition splice :: "nat \<Rightarrow> 'a list \<Rightarrow> 'a list" where
  "splice k xs = take k xs @ drop (Suc k) xs"

text \<open>
  The executor of \<^verbatim>\<open>promise\<close> and the push that follows \<^verbatim>\<open>new Promise\<close>. When the pool
  rejects, \<^verbatim>\<open>catch\<close> rejects \<^verbatim>\<open>promise\<close> with the error of the pool and the promise stays
  in the chain.
\<close>

definition execute :: "Collaborators \<Rightarrow> nat \<Rightarrow> string \<Rightarrow> Admission \<Rightarrow> Admission" where
  "execute env i q a =
     (let a1 = a\<lparr>queryResponsibilityChain := queryResponsibilityChain a @ [promise i]\<rparr>
      in case SqlServer_pool env (runner a1) of
           Some e \<Rightarrow>
             a1\<lparr>settlement := (settlement a1)(promise i := Rejected (DriverError e)),
                stage := (stage a1)(i := Returned (Inl (DriverError e)))\<rparr>
         | None \<Rightarrow>
             a1\<lparr>runner := (runner a1)\<lparr>sent := sent (runner a1) @ [q]\<rparr>,
                stage := (stage a1)(i := InFlight q)\<rparr>)"

definition call :: "Collaborators \<Rightarrow> nat \<Rightarrow> string \<Rightarrow> Admission \<Rightarrow> Admission" where
  "call env i q a =
     (if stage a i \<noteq> NotCalled then a
      else if isReleased (runner a)
      then a\<lparr>stage := (stage a)(i := Returned (Inl QueryRunnerAlreadyReleasedError))\<rparr>
      else if queryResponsibilityChain a \<noteq> []
      then a\<lparr>queryResponsibilityChain := queryResponsibilityChain a @ [waitingPromise i],
             stage := (stage a)(i := AwaitsChain q (queryResponsibilityChain a))\<rparr>
      else execute env i q a)"

definition resume :: "Collaborators \<Rightarrow> nat \<Rightarrow> Admission \<Rightarrow> Admission" where
  "resume env i a =
     (case stage a i of
        AwaitsChain q otherWaitingPromises \<Rightarrow>
          (case awaitAll (settlement a) otherWaitingPromises of
             Pending \<Rightarrow> a
           | Rejected e \<Rightarrow> a\<lparr>stage := (stage a)(i := Returned (Inl e))\<rparr>
           | Resolved \<Rightarrow> execute env i q a)
      | _ \<Rightarrow> a)"

text \<open>
  \<^verbatim>\<open>resolveChain\<close> removes the two promises of the call at the indices read before the
  first removal, and resolves \<^verbatim>\<open>waitingPromise\<close>.
\<close>

definition resolveChain :: "nat \<Rightarrow> nat option \<Rightarrow> nat option \<Rightarrow> Admission \<Rightarrow> Admission" where
  "resolveChain i promiseIndex waitingPromiseIndex a =
     (let chain1 = (case promiseIndex of
                      Some k \<Rightarrow> splice k (queryResponsibilityChain a)
                    | None \<Rightarrow> queryResponsibilityChain a);
          chain2 = (case waitingPromiseIndex of
                      Some k \<Rightarrow> splice k chain1
                    | None \<Rightarrow> chain1)
      in a\<lparr>queryResponsibilityChain := chain2,
           settlement := (settlement a)(waitingPromise i := Resolved)\<rparr>)"

definition callback :: "nat \<Rightarrow> string + ObjectLiteral list \<Rightarrow> Admission \<Rightarrow> Admission" where
  "callback i answer a =
     (case stage a i of
        InFlight q \<Rightarrow>
          (let promiseIndex = indexOf (queryResponsibilityChain a) (promise i);
               waitingPromiseIndex = indexOf (queryResponsibilityChain a) (waitingPromise i)
           in case answer of
                Inl err \<Rightarrow>
                  (let a1 = resolveChain i promiseIndex waitingPromiseIndex a
                   in a1\<lparr>settlement := (settlement a1)
                                          (promise i := Rejected (QueryFailedError q err)),
                         stage := (stage a1)(i := Returned (Inl (QueryFailedError q err)))\<rparr>)
              | Inr raw \<Rightarrow>
                  resolveChain i promiseIndex waitingPromiseIndex
                    (a\<lparr>settlement := (settlement a)(promise i := Resolved),
                       stage := (stage a)(i := Returned (Inr raw))\<rparr>))
      | _ \<Rightarrow> a)"

fun step :: "Collaborators \<Rightarrow> Event \<Rightarrow> Admission \<Rightarrow> Admission" where
  "step env (Call i q) a = call env i q a"
| "step env (Resume i) a = resume env i a"
| "step env (Callback i answer) a = callback i answer a"

fun run :: "Collaborators \<Rightarrow> Event list \<Rightarrow> Admission \<Rightarrow> Admission" where
  "run env [] a = a"
| "run env (e # es) a = run env es (step env e a)"

subsection \<open>The SQLite family: SqliteQueryRunner, SqljsQueryRunner, NativescriptQueryRunner\<close>

text \<open>
  The three runners inherit \<^verbatim>\<open>connect\<close> from \<^verbatim>\<open>AbstractSqliteQueryRunner\<close>, which
  hands back the driver's single connection; it is taken to resolve. The retry of
  \<^verbatim>\<open>SqliteQueryRunner\<close> after a busy error runs only when the option
  \<^verbatim>\<open>busyErrorRetry\<close> is set; the model is the runner without that option.
\<close>

definition Sqlite_query :: "Collaborators \<Rightarrow> string \<Rightarrow> ObjectLiteral list io" where
  "Sqlite_query env q s =
     (if isReleased s then (Inl QueryRunnerAlreadyReleasedError, s)
      else if \<not> isConnected env then (Inl (ConnectionIsNotSetError ''sqlite''), s)
      else case respond env (sent s) q of
          Inl err \<Rightarrow> (Inl (QueryFailedError q err), s\<lparr>sent := sent s @ [q]\<rparr>)
        | Inr rows \<Rightarrow> (Inr rows, s\<lparr>sent := sent s @ [q]\<rparr>))"

definition isWhitespace :: "char \<Rightarrow> bool" where
  "isWhitespace c = (c \<in> {CHR '' '', CHR 0x09, CHR 0x0A, CHR 0x0B, CHR 0x0C, CHR 0x0D})"

definition command :: "string \<Rightarrow> string" where
  "command q = takeWhile (\<lambda>c. c \<noteq> CHR '' '') (dropWhile isWhitespace q)"

definition Sqljs_query :: "Collaborators \<Rightarrow> string \<Rightarrow> ObjectLiteral list io" where
  "Sqljs_query env q s =
     (if isReleased s then (Inl QueryRunnerAlreadyReleasedError, s)
      else case respond env (sent s) q of
          Inl e \<Rightarrow> (Inl (QueryFailedError q e), s\<lparr>sent := sent s @ [q]\<rparr>)
        | Inr records \<Rightarrow>
            (Inr records, s\<lparr>sent := sent s @ [q],
                             isDirty := (if command q \<noteq> ''SELECT'' then True else isDirty s)\<rparr>))"

definition Nativescript_query :: "Collaborators \<Rightarrow> string \<Rightarrow> ObjectLiteral list io" where
  "Nativescript_query env q s =
     (if isReleased s then (Inl QueryRunnerAlreadyReleasedError, s)
      else case respond env (sent s) q of
          Inl err \<Rightarrow> (Inl (QueryFailedError q err), s\<lparr>sent := sent s @ [q]\<rparr>)
        | Inr raw \<Rightarrow> (Inr raw, s\<lparr>sent := sent s @ [q]\<rparr>))"

subsection \<open>ExpoQueryRunner: transactions\<close>





section \<open>The table model\<close>

text \<open>
  The classes \<^verbatim>\<open>Table\<close>, \<^verbatim>\<open>TableColumn\<close>, \<^verbatim>\<open>TableIndex\<close>, \<^verbatim>\<open>TableForeignKey\<close>,
  \<^verbatim>\<open>TableUnique\<close>, \<^verbatim>\<open>TableCheck\<close> and \<^verbatim>\<open>TableExclusion\<close> as records of the fields
  the query runners read and write. Objects are values here: \<^verbatim>\<open>table.clone()\<close> is the
  value itself, and a write to a field of the clone is a record update that leaves the
  value it was cloned from as it is. Where a method writes to the object it was given and
  not to a clone, the model keeps the written object as a result of its own.
\<close>

datatype GenerationStrategy = increment | uuid | rowid

record TableColumn =
  column_name :: string
  column_type :: string
  column_length :: string
  column_isArray :: bool
  column_isNullable :: bool
  column_isPrimary :: bool
  column_isUnique :: bool
  column_isGenerated :: bool
  column_generationStrategy :: "GenerationStrategy option"
  column_generatedType :: "string option"
  column_asExpression :: "string option"
  column_zerofill :: bool
  column_unsigned :: bool
  column_enum :: "string list option"
  column_charset :: "string option"
  column_collation :: "string option"
  column_comment :: "string option"
  column_default :: "string option"
  column_onUpdate :: "string option"

record TableIndex =
  index_name :: string
  index_columnNames :: "string list"
  index_isUnique :: bool
  index_isSpatial :: bool
  index_isFulltext :: bool
  index_parser :: "string option"
  index_where :: "string option"

record TableForeignKey =
  foreignKey_name :: string
  foreignKey_columnNames :: "string list"
  foreignKey_referencedTableName :: string
  foreignKey_referencedColumnNames :: "string list"
  foreignKey_onDelete :: "string option"
  foreignKey_onUpdate :: "string option"

record TableUnique =
  unique_name :: string
  unique_columnNames :: "string list"

record TableCheck =
  check_name :: string
  check_columnNames :: "string list"
  check_expression :: string

record TableExclusion =
  exclusion_name :: string
  exclusion_expression :: string

record Table =
  table_name :: string
  columns :: "TableColumn list"
  indices :: "TableIndex list"
  foreignKeys :: "TableForeignKey list"
  uniques :: "TableUnique list"
  checks :: "TableCheck list"
  exclusions :: "TableExclusion list"
  justCreated :: bool
  engine :: "string option"

subsection \<open>Methods of Table\<close>

text \<open>
  Modelled from the spec: the class \<^verbatim>\<open>Table\<close> is not among the sources. Its data model
  gives a table its columns, indices, foreign keys and uniques as lists, a column its
  \<^verbatim>\<open>isPrimary\<close> flag and an index or foreign key its column list; the methods the
  runners call are read off those lists: the primary columns are the columns with
  \<^verbatim>\<open>isPrimary\<close>, a column is found by its name, the indices and foreign keys of a column
  are those whose column list holds its name, a column is added at the end and removed
  by its name.
\<close>

definition primaryColumns :: "Table \<Rightarrow> TableColumn list" where
  "primaryColumns t = filter column_isPrimary (columns t)"

definition findColumnByName :: "Table \<Rightarrow> string \<Rightarrow> TableColumn option" where
  "findColumnByName t n = find (\<lambda>c. column_name c = n) (columns t)"

definition findColumnIndices :: "Table \<Rightarrow> TableColumn \<Rightarrow> TableIndex list" where
  "findColumnIndices t column =
     filter (\<lambda>index. column_name column \<in> set (index_columnNames index)) (indices t)"

definition findColumnForeignKeys :: "Table \<Rightarrow> TableColumn \<Rightarrow> TableForeignKey list" where
  "findColumnForeignKeys t column =
     filter (\<lambda>fk. column_name column \<in> set (foreignKey_columnNames fk)) (foreignKeys t)"

fun removeFirst :: "('a \<Rightarrow> bool) \<Rightarrow> 'a list \<Rightarrow> 'a list" where
  "removeFirst P [] = []"
| "removeFirst P (x # xs) = (if P x then xs else x # removeFirst P xs)"

fun updateFirst :: "('a \<Rightarrow> bool) \<Rightarrow> ('a \<Rightarrow> 'a) \<Rightarrow> 'a list \<Rightarrow> 'a list option" where
  "updateFirst P f [] = None"
| "updateFirst P f (x # xs) =
     (if P x then Some (f x # xs) else map_option ((#) x) (updateFirst P f xs))"

definition Table_addColumn :: "Table \<Rightarrow> TableColumn \<Rightarrow> Table" where
  "Table_addColumn t column = t\<lparr>columns := columns t @ [column]\<rparr>"

definition Table_removeColumn :: "Table \<Rightarrow> TableColumn \<Rightarrow> Table" where
  "Table_removeColumn t column =
     t\<lparr>columns := removeFirst (\<lambda>c. column_name c = column_name column) (columns t)\<rparr>"

text \<open>
  The JavaScript idiom \<^verbatim>\<open>xs.splice(xs.indexOf(xs.find(p)), 1)\<close> removes the first
  element that satisfies \<open>p\<close>; when there is none, \<^verbatim>\<open>indexOf\<close> is \<open>-1\<close> and
  \<^verbatim>\<open>splice(-1, 1)\<close> removes the last element.
\<close>

definition spliceFound :: "('a \<Rightarrow> bool) \<Rightarrow> 'a list \<Rightarrow> 'a list" where
  "spliceFound P xs = (if find P xs = None then butlast xs else removeFirst P xs)"

subsection \<open>Statements\<close>

text \<open>
  A \<^verbatim>\<open>Query\<close> is built from one of a few templates; the model keeps the template and
  the values put into it. The clauses are the pieces \<^verbatim>\<open>buildCreateColumnSql\<close> appends,
  in its order. The templates are, with \<open>t\<close> for the escaped table path:
  \<^item> \<open>AlterTableAdd\<close>: \<^verbatim>\<open>ALTER TABLE t ADD <clauses>\<close>
  \<^item> \<open>AlterTableDropColumn\<close>: \<^verbatim>\<open>ALTER TABLE t DROP COLUMN `name`\<close>
  \<^item> \<open>AlterTableChange\<close>: \<^verbatim>\<open>ALTER TABLE t CHANGE `old` <clauses>\<close>
  \<^item> \<open>AlterTableDropPrimaryKey\<close>: \<^verbatim>\<open>ALTER TABLE t DROP PRIMARY KEY\<close>
  \<^item> \<open>AlterTableAddPrimaryKey\<close>: \<^verbatim>\<open>ALTER TABLE t ADD PRIMARY KEY (names)\<close>
  \<^item> \<open>CreateIndex\<close>: \<^verbatim>\<open>CREATE <type>INDEX `name` ON t (names)<parser>\<close>
  \<^item> \<open>DropIndex\<close>: \<^verbatim>\<open>DROP INDEX `name` ON t\<close>
  \<^item> \<open>AlterTableAddUniqueIndex\<close>: \<^verbatim>\<open>ALTER TABLE t ADD UNIQUE INDEX `name` (`column`)\<close>
  \<^item> \<open>AlterTableDropIndex\<close>: \<^verbatim>\<open>ALTER TABLE t DROP INDEX `name`\<close>
  \<^item> \<open>AlterTableDropAddIndex\<close>:
    \<^verbatim>\<open>ALTER TABLE t DROP INDEX `old`, ADD <type>INDEX `new` (names)<parser>\<close>
  \<^item> \<open>AlterTableDropAddForeignKey\<close>: \<^verbatim>\<open>ALTER TABLE t DROP FOREIGN KEY `old`, ADD
    CONSTRAINT `new` FOREIGN KEY (names) REFERENCES ref(refnames)\<close> with the optional
    \<^verbatim>\<open>ON DELETE\<close> and \<^verbatim>\<open>ON UPDATE\<close>
  \<^item> \<open>RenameTable\<close>: \<^verbatim>\<open>RENAME TABLE old TO new\<close>
\<close>

datatype Clause =
    ColumnName string
  | FullType string
  | AsExpression string string
  | ZEROFILL
  | UNSIGNED
  | EnumValues "string list"
  | CharacterSet string
  | Collate string
  | NOT_NULL
  | NULLABLE
  | PRIMARY_KEY
  | AUTO_INCREMENT
  | Comment string
  | Default string
  | OnUpdate string

datatype Query =
    AlterTableAdd string "Clause list"
  | AlterTableDropColumn string string
  | AlterTableChange string string "Clause list"
  | AlterTableDropPrimaryKey string
  | AlterTableAddPrimaryKey string "string list"
  | CreateIndex string string string "string list" string
  | DropIndex string string
  | AlterTableAddUniqueIndex string string string
  | AlterTableDropIndex string string
  | AlterTableDropAddIndex string string string string "string list" string
  | AlterTableDropAddForeignKey string string string "string list" string "string list"
      "string option" "string option"
  | RenameTable string string

text \<open>
  The collaborators of the schema methods. \<open>createFullType\<close> is the driver's rendering of
  a column type and \<open>isColumnChanged\<close> the comparison of \<^verbatim>\<open>BaseQueryRunner\<close>; neither class
  is among the sources. Modelled from the spec: the naming strategy is consumed as a
  deterministic pure function from the table, the columns and, for an index, the
  predicate to an identifier; the runners hand it the table or its name, and the model
  hands it the name.
\<close>

record Connection =
  createFullType :: "TableColumn \<Rightarrow> string"
  isMariaDb :: bool
  isColumnChanged :: "TableColumn \<Rightarrow> TableColumn \<Rightarrow> bool \<Rightarrow> bool \<Rightarrow> bool"
  indexName :: "string \<Rightarrow> string list \<Rightarrow> string option \<Rightarrow> string"
  uniqueConstraintName :: "string \<Rightarrow> string list \<Rightarrow> string"
  foreignKeyName :: "string \<Rightarrow> string list \<Rightarrow> string \<Rightarrow> string list \<Rightarrow> string"
  afterReplace :: "Table \<Rightarrow> Table \<Rightarrow> Table"

text \<open>
  \<^verbatim>\<open>replaceCachedTable(table, changedTable)\<close> belongs to \<^verbatim>\<open>BaseQueryRunner\<close>. What the
  object \<open>table\<close> holds once the call returns is \<open>afterReplace table changedTable\<close>: the
  table as it was when the cache entry is swapped for the new object, the changed table
  when the entry is overwritten field by field.
\<close>

subsection \<open>MysqlQueryRunner: statement builders\<close>

definition escapeComment :: "string \<Rightarrow> string" where
  "escapeComment c =
     sq @ concat (map (\<lambda>ch. if ch = CHR 0x5C then [ch, ch]
                             else if ch = CHR 0x27 then [ch, ch]
                             else if ch = CHR 0x00 then [] else [ch]) c) @ sq"

definition buildCreateColumnSql :: "Connection \<Rightarrow> TableColumn \<Rightarrow> bool \<Rightarrow> bool \<Rightarrow> Clause list" where
  "buildCreateColumnSql conn column skipPrimary skipName =
     (if skipName then [FullType (createFullType conn column)]
      else [ColumnName (column_name column), FullType (createFullType conn column)])
     @ (if truthy (column_asExpression column)
        then [AsExpression (the (column_asExpression column))
                (if truthy (column_generatedType column) then the (column_generatedType column)
                 else ''VIRTUAL'')]
        else [])
     @ (if column_zerofill column then [ZEROFILL]
        else if column_unsigned column then [UNSIGNED] else [])
     @ (case column_enum column of Some vs \<Rightarrow> [EnumValues vs] | None \<Rightarrow> [])
     @ (if truthy (column_charset column) then [CharacterSet (the (column_charset column))] else [])
     @ (if truthy (column_collation column) then [Collate (the (column_collation column))] else [])
     @ (if isMariaDb conn \<and> truthy (column_asExpression column)
           \<and> (if truthy (column_generatedType column) then the (column_generatedType column)
               else ''VIRTUAL'') \<in> {''VIRTUAL'', ''STORED''}
        then []
        else (if \<not> column_isNullable column then [NOT_NULL] else [])
           @ (if column_isNullable column then [NULLABLE] else []))
     @ (if column_isPrimary column \<and> \<not> skipPrimary then [PRIMARY_KEY] else [])
     @ (if column_isGenerated column \<and> column_generationStrategy column = Some increment
        then [AUTO_INCREMENT] else [])
     @ (if truthy (column_comment column)
        then [Comment (escapeComment (the (column_comment column)))] else [])
     @ (case column_default column of Some d \<Rightarrow> [Default d] | None \<Rightarrow> [])
     @ (if truthy (column_onUpdate column) then [OnUpdate (the (column_onUpdate column))] else [])"

definition indexType :: "TableIndex \<Rightarrow> string" where
  "indexType index =
     (if index_isUnique index then ''UNIQUE '' else [])
     @ (if index_isSpatial index then ''SPATIAL '' else [])
     @ (if index_isFulltext index then ''FULLTEXT '' else [])"

definition indexParser :: "TableIndex \<Rightarrow> string" where
  "indexParser index =
     (if index_isFulltext index \<and> truthy (index_parser index)
      then '' WITH PARSER '' @ the (index_parser index) else [])"

definition createIndexSql :: "Table \<Rightarrow> TableIndex \<Rightarrow> Query" where
  "createIndexSql table index =
     CreateIndex (indexType index) (index_name index) (table_name table)
       (index_columnNames index) (indexParser index)"

definition dropIndexSql :: "Table \<Rightarrow> TableIndex \<Rightarrow> Query" where
  "dropIndexSql table index = DropIndex (index_name index) (table_name table)"

definition createPrimaryKeySql :: "Table \<Rightarrow> string list \<Rightarrow> Query" where
  "createPrimaryKeySql table columnNames = AlterTableAddPrimaryKey (table_name table) columnNames"

definition dropPrimaryKeySql :: "Table \<Rightarrow> Query" where
  "dropPrimaryKeySql table = AlterTableDropPrimaryKey (table_name table)"

subsection \<open>MysqlQueryRunner: the outcome of a schema method\<close>

text \<open>
  Every method pushes its statements in pairs, one onto \<^verbatim>\<open>upQueries\<close> and its inverse
  onto \<^verbatim>\<open>downQueries\<close>; \<open>queries\<close> is the list of those pairs in the order of the
  pushes. The up statements run in that order; the comment in \<^verbatim>\<open>createTable\<close> records
  that the down statements run in the reversed order. \<open>given\<close> is the \<^verbatim>\<open>Table\<close> the method
  was handed, as the writes of the method body leave it, and \<open>changedTable\<close> the object it
  passes to \<^verbatim>\<open>replaceCachedTable\<close>, if it calls it. An outcome describes the run in which
  \<^verbatim>\<open>executeQueries\<close> succeeds.
\<close>

record Outcome =
  queries :: "(Query \<times> Query) list"
  given :: Table
  changedTable :: "Table option"

definition upQueries :: "Outcome \<Rightarrow> Query list" where
  "upQueries out = map fst (queries out)"

definition downQueries :: "Outcome \<Rightarrow> Query list" where
  "downQueries out = map snd (queries out)"

definition isIncrement :: "TableColumn \<Rightarrow> bool" where
  "isIncrement column =
     (column_isGenerated column \<and> column_generationStrategy column = Some increment)"

definition nonGenerated :: "TableColumn \<Rightarrow> TableColumn" where
  "nonGenerated generatedColumn =
     generatedColumn\<lparr>column_isGenerated := False, column_generationStrategy := None\<rparr>"

definition isColumnIndex :: "TableColumn \<Rightarrow> TableIndex \<Rightarrow> bool" where
  "isColumnIndex column index =
     (length (index_columnNames index) = 1 \<and> index_columnNames index ! 0 = column_name column)"

definition newUniqueIndex :: "Connection \<Rightarrow> Table \<Rightarrow> TableColumn \<Rightarrow> TableIndex" where
  "newUniqueIndex conn table column =
     \<lparr>index_name = indexName conn (table_name table) [column_name column] None,
      index_columnNames = [column_name column], index_isUnique = True,
      index_isSpatial = False, index_isFulltext = False, index_parser = None,
      index_where = None\<rparr>"

definition newTableUnique :: "TableIndex \<Rightarrow> TableUnique" where
  "newTableUnique uniqueIndex =
     \<lparr>unique_name = index_name uniqueIndex, unique_columnNames = index_columnNames uniqueIndex\<rparr>"

text \<open>
  The pair of statements that takes \<^verbatim>\<open>AUTO_INCREMENT\<close> off the generated column, and the
  pair that brings it back, as \<^verbatim>\<open>dropColumn\<close>, \<^verbatim>\<open>changeColumn\<close> and
  \<^verbatim>\<open>updatePrimaryKeys\<close> write them.
\<close>

definition dropAutoIncrement :: "Connection \<Rightarrow> string \<Rightarrow> TableColumn \<Rightarrow> Query \<times> Query" where
  "dropAutoIncrement conn tn generatedColumn =
     (AlterTableChange tn (column_name generatedColumn)
        (buildCreateColumnSql conn (nonGenerated generatedColumn) True False),
      AlterTableChange tn (column_name (nonGenerated generatedColumn))
        (buildCreateColumnSql conn generatedColumn True False))"

definition restoreAutoIncrement :: "Connection \<Rightarrow> string \<Rightarrow> TableColumn \<Rightarrow> Query \<times> Query" where
  "restoreAutoIncrement conn tn generatedColumn =
     (AlterTableChange tn (column_name (nonGenerated generatedColumn))
        (buildCreateColumnSql conn generatedColumn True False),
      AlterTableChange tn (column_name generatedColumn)
        (buildCreateColumnSql conn (nonGenerated generatedColumn) True False))"

subsection \<open>MysqlQueryRunner.addColumn\<close>

definition Mysql_addColumn :: "Connection \<Rightarrow> Table \<Rightarrow> TableColumn \<Rightarrow> Outcome" where
  "Mysql_addColumn conn table column =
     (let tn = table_name table;
          skipColumnLevelPrimary = (primaryColumns table \<noteq> []);
          generatedColumn = find isIncrement (columns table);
          primary =
            (if column_isPrimary column \<and> skipColumnLevelPrimary then
               (case generatedColumn of
                  Some g \<Rightarrow>
                    [(AlterTableChange tn (column_name column)
                        (buildCreateColumnSql conn (nonGenerated g) True False),
                      AlterTableChange tn (column_name (nonGenerated g))
                        (buildCreateColumnSql conn column True False))]
                | None \<Rightarrow> [])
               @ [(AlterTableDropPrimaryKey tn,
                   AlterTableAddPrimaryKey tn (map column_name (primaryColumns table)))]
               @ [(AlterTableAddPrimaryKey tn (map column_name (primaryColumns table @ [column])),
                   AlterTableDropPrimaryKey tn)]
               @ (case generatedColumn of
                  Some g \<Rightarrow>
                    [(AlterTableChange tn (column_name (nonGenerated g))
                        (buildCreateColumnSql conn column True False),
                      AlterTableChange tn (column_name column)
                        (buildCreateColumnSql conn (nonGenerated g) True False))]
                | None \<Rightarrow> [])
             else []);
          uniqueIndex = newUniqueIndex conn table column;
          (indexQueries, clonedTable) =
            (case find (isColumnIndex column) (indices table) of
               Some columnIndex \<Rightarrow>
                 ([(createIndexSql table columnIndex, dropIndexSql table columnIndex)], table)
             | None \<Rightarrow>
                 if column_isUnique column then
                   ([(AlterTableAddUniqueIndex tn (index_name uniqueIndex) (column_name column),
                      AlterTableDropIndex tn (index_name uniqueIndex))],
                    table\<lparr>indices := indices table @ [uniqueIndex],
                          uniques := uniques table @ [newTableUnique uniqueIndex]\<rparr>)
                 else ([], table))
      in \<lparr>queries =
            [(AlterTableAdd tn (buildCreateColumnSql conn column skipColumnLevelPrimary False),
              AlterTableDropColumn tn (column_name column))]
            @ primary @ indexQueries,
          given = table,
          changedTable = Some (Table_addColumn clonedTable column)\<rparr>)"

subsection \<open>MysqlQueryRunner.dropColumn\<close>

definition setIsPrimary :: "string \<Rightarrow> bool \<Rightarrow> Table \<Rightarrow> Table option" where
  "setIsPrimary n b t =
     map_option (\<lambda>cs. t\<lparr>columns := cs\<rparr>)
       (updateFirst (\<lambda>c. column_name c = n) (\<lambda>c. c\<lparr>column_isPrimary := b\<rparr>) (columns t))"

definition dropColumnFound :: "Connection \<Rightarrow> Table \<Rightarrow> TableColumn \<Rightarrow> error + Outcome" where
  "dropColumnFound conn table column =
     (let tn = table_name table;
          generatedColumn = find isIncrement (columns table);
          afterPrimary =
            (if column_isPrimary column then
               (case setIsPrimary (column_name column) False table of
                  None \<Rightarrow> Inl TypeError
                | Some clonedTable \<Rightarrow>
                    Inr ((case generatedColumn of
                            Some g \<Rightarrow> [dropAutoIncrement conn tn g] | None \<Rightarrow> [])
                         @ [(AlterTableDropPrimaryKey tn,
                             AlterTableAddPrimaryKey tn (map column_name (primaryColumns table)))]
                         @ (if primaryColumns clonedTable \<noteq> []
                            then [(AlterTableAddPrimaryKey tn
                                     (map column_name (primaryColumns clonedTable)),
                                   AlterTableDropPrimaryKey tn)]
                            else [])
                         @ (case generatedColumn of
                              Some g \<Rightarrow>
                                if column_name g \<noteq> column_name column
                                then [restoreAutoIncrement conn tn g] else []
                            | None \<Rightarrow> []),
                         clonedTable))
             else Inr ([], table))
      in case afterPrimary of
           Inl e \<Rightarrow> Inl e
         | Inr (primary, clonedTable) \<Rightarrow>
             (let (indexQueries, clonedTable2) =
                    (case find (isColumnIndex column) (indices clonedTable) of
                       Some columnIndex \<Rightarrow>
                         ([(dropIndexSql table columnIndex, createIndexSql table columnIndex)],
                          clonedTable\<lparr>indices :=
                            removeFirst (isColumnIndex column) (indices clonedTable)\<rparr>)
                     | None \<Rightarrow>
                         if column_isUnique column then
                           (let uniqueName = uniqueConstraintName conn tn [column_name column];
                                indexName' = indexName conn tn [column_name column] None
                            in ([(AlterTableDropIndex tn indexName',
                                  AlterTableAddUniqueIndex tn indexName' (column_name column))],
                                clonedTable\<lparr>
                                  uniques := removeFirst (\<lambda>unique. unique_name unique = uniqueName)
                                               (uniques clonedTable),
                                  indices := removeFirst (\<lambda>index. index_name index = indexName')
                                               (indices clonedTable)\<rparr>))
                         else ([], clonedTable))
              in Inr \<lparr>queries =
                        primary @ indexQueries
                        @ [(AlterTableDropColumn tn (column_name column),
                            AlterTableAdd tn (buildCreateColumnSql conn column True False))],
                      given = table,
                      changedTable = Some (Table_removeColumn clonedTable2 column)\<rparr>))"

definition Mysql_dropColumn ::
  "Connection \<Rightarrow> Table \<Rightarrow> TableColumn + string \<Rightarrow> error + Outcome" where
  "Mysql_dropColumn conn table columnOrName =
     (case columnOrName of
        Inl column \<Rightarrow> dropColumnFound conn table column
      | Inr n \<Rightarrow>
          (case findColumnByName table n of
             None \<Rightarrow>
               Inl (TypeORMError (''Column '' @ dquote n @ '' was not found in table ''
                      @ dquote (table_name table)))
           | Some column \<Rightarrow> dropColumnFound conn table column))"

subsection \<open>MysqlQueryRunner.changeColumn\<close>

text \<open>
  The guard of the branch of \<^verbatim>\<open>changeColumn\<close> that drops the old column and adds the new
  one, on the MySQL, the Postgres and the SQL Server runner.
\<close>

definition Mysql_recreatesColumn :: "TableColumn \<Rightarrow> TableColumn \<Rightarrow> bool" where
  "Mysql_recreatesColumn oldColumn newColumn =
     ((column_isGenerated newColumn \<noteq> column_isGenerated oldColumn
         \<and> column_generationStrategy newColumn \<noteq> Some uuid)
      \<or> column_type oldColumn \<noteq> column_type newColumn
      \<or> column_length oldColumn \<noteq> column_length newColumn
      \<or> column_generatedType oldColumn \<noteq> column_generatedType newColumn)"

definition Postgres_recreatesColumn :: "TableColumn \<Rightarrow> TableColumn \<Rightarrow> bool" where
  "Postgres_recreatesColumn oldColumn newColumn =
     (column_type oldColumn \<noteq> column_type newColumn
      \<or> column_length oldColumn \<noteq> column_length newColumn
      \<or> column_isArray newColumn \<noteq> column_isArray oldColumn)"

definition SqlServer_recreatesColumn :: "TableColumn \<Rightarrow> TableColumn \<Rightarrow> bool" where
  "SqlServer_recreatesColumn oldColumn newColumn =
     ((column_isGenerated newColumn \<noteq> column_isGenerated oldColumn
         \<and> column_generationStrategy newColumn \<noteq> Some uuid)
      \<or> column_type newColumn \<noteq> column_type oldColumn
      \<or> column_length newColumn \<noteq> column_length oldColumn)"

text \<open>The rename of one index and of one foreign key of the renamed column.\<close>

definition renameIndex :: "Connection \<Rightarrow> string \<Rightarrow> string \<Rightarrow> string \<Rightarrow> TableIndex \<Rightarrow> TableIndex" where
  "renameIndex conn tn oldName newName index =
     (let columnNames = remove1 oldName (index_columnNames index) @ [newName]
      in index\<lparr>index_columnNames := columnNames,
               index_name := indexName conn tn columnNames (index_where index)\<rparr>)"

definition renameIndexQueries ::
  "Connection \<Rightarrow> string \<Rightarrow> string \<Rightarrow> string \<Rightarrow> TableIndex \<Rightarrow> Query \<times> Query" where
  "renameIndexQueries conn tn oldName newName index =
     (let renamed = renameIndex conn tn oldName newName index
      in (AlterTableDropAddIndex tn (index_name index) (indexType index) (index_name renamed)
            (index_columnNames renamed) (indexParser index),
          AlterTableDropAddIndex tn (index_name renamed) (indexType index) (index_name index)
            (index_columnNames renamed) (indexParser index)))"

definition renameForeignKey ::
  "Connection \<Rightarrow> string \<Rightarrow> string \<Rightarrow> string \<Rightarrow> TableForeignKey \<Rightarrow> TableForeignKey" where
  "renameForeignKey conn tn oldName newName foreignKey =
     (let columnNames = remove1 oldName (foreignKey_columnNames foreignKey) @ [newName]
      in foreignKey\<lparr>foreignKey_columnNames := columnNames,
                    foreignKey_name := foreignKeyName conn tn columnNames
                      (foreignKey_referencedTableName foreignKey)
                      (foreignKey_referencedColumnNames foreignKey)\<rparr>)"

definition renameForeignKeyQueries ::
  "Connection \<Rightarrow> string \<Rightarrow> string \<Rightarrow> string \<Rightarrow> TableForeignKey \<Rightarrow> Query \<times> Query" where
  "renameForeignKeyQueries conn tn oldName newName foreignKey =
     (let renamed = renameForeignKey conn tn oldName newName foreignKey
      in (AlterTableDropAddForeignKey tn (foreignKey_name foreignKey) (foreignKey_name renamed)
            (foreignKey_columnNames renamed) (foreignKey_referencedTableName foreignKey)
            (foreignKey_referencedColumnNames foreignKey)
            (if truthy (foreignKey_onDelete foreignKey) then foreignKey_onDelete foreignKey else None)
            (if truthy (foreignKey_onUpdate foreignKey) then foreignKey_onUpdate foreignKey else None),
          AlterTableDropAddForeignKey tn (foreignKey_name renamed) (foreignKey_name foreignKey)
            (foreignKey_columnNames renamed) (foreignKey_referencedTableName foreignKey)
            (foreignKey_referencedColumnNames foreignKey)
            (if truthy (foreignKey_onDelete foreignKey) then foreignKey_onDelete foreignKey else None)
            (if truthy (foreignKey_onUpdate foreignKey) then foreignKey_onUpdate foreignKey else None)))"

text \<open>
  The branch \<^verbatim>\<open>if (newColumn.name !== oldColumn.name)\<close>: the statement that renames the
  column, then one pair per index of the old column, then one pair per foreign key of the
  old column, then the rename of the column in the cloned table.
\<close>

definition renameColumn ::
  "Connection \<Rightarrow> Table \<Rightarrow> TableColumn \<Rightarrow> TableColumn \<Rightarrow> error + (Query \<times> Query) list \<times> Table" where
  "renameColumn conn table oldColumn newColumn =
     (let tn = table_name table;
          oldName = column_name oldColumn;
          newName = column_name newColumn
      in case updateFirst (\<lambda>column. column_name column = oldName)
                (\<lambda>column. column\<lparr>column_name := newName\<rparr>) (columns table) of
           None \<Rightarrow> Inl TypeError
         | Some renamedColumns \<Rightarrow>
             Inr ([(AlterTableChange tn oldName
                      (ColumnName newName # buildCreateColumnSql conn oldColumn True True),
                    AlterTableChange tn newName
                      (ColumnName oldName # buildCreateColumnSql conn oldColumn True True))]
                  @ map (renameIndexQueries conn tn oldName newName)
                      (findColumnIndices table oldColumn)
                  @ map (renameForeignKeyQueries conn tn oldName newName)
                      (findColumnForeignKeys table oldColumn),
                  table\<lparr>columns := renamedColumns,
                        indices := map (\<lambda>index. if oldName \<in> set (index_columnNames index)
                                              then renameIndex conn tn oldName newName index
                                              else index) (indices table),
                        foreignKeys := map (\<lambda>fk. if oldName \<in> set (foreignKey_columnNames fk)
                                              then renameForeignKey conn tn oldName newName fk
                                              else fk) (foreignKeys table)\<rparr>))"

text \<open>
  The branch \<^verbatim>\<open>if (newColumn.isPrimary !== oldColumn.isPrimary)\<close>, on the cloned table as
  the rename left it. \<^verbatim>\<open>generatedColumn\<close> is an object of the cloned table and the later
  write of \<^verbatim>\<open>isPrimary\<close> may reach it before the last two statements are built. They
  are built from the column as it was found: \<^verbatim>\<open>buildCreateColumnSql\<close> is called with
  \<^verbatim>\<open>skipPrimary\<close> set, so its \<^verbatim>\<open>PRIMARY KEY\<close> clause does not read the flag, and the
  full type of a column, computed by the driver, is taken not to depend on it.
\<close>

definition changePrimary ::
  "Connection \<Rightarrow> string \<Rightarrow> Table \<Rightarrow> TableColumn \<Rightarrow> error + (Query \<times> Query) list \<times> Table" where
  "changePrimary conn tn clonedTable newColumn =
     (let generatedColumn = find isIncrement (columns clonedTable);
          primaryColumns0 = primaryColumns clonedTable;
          dropped = (if primaryColumns0 \<noteq> []
                     then [(AlterTableDropPrimaryKey tn,
                            AlterTableAddPrimaryKey tn (map column_name primaryColumns0))]
                     else []);
          primaryColumns1 =
            (if column_isPrimary newColumn then primaryColumns0 @ [newColumn]
             else spliceFound (\<lambda>c. column_name c = column_name newColumn) primaryColumns0);
          added = (if column_isPrimary newColumn \<or> primaryColumns1 \<noteq> []
                   then [(AlterTableAddPrimaryKey tn (map column_name primaryColumns1),
                          AlterTableDropPrimaryKey tn)]
                   else [])
      in case setIsPrimary (column_name newColumn) (column_isPrimary newColumn) clonedTable of
           None \<Rightarrow> Inl TypeError
         | Some clonedTable1 \<Rightarrow>
             Inr ((case generatedColumn of
                     Some g \<Rightarrow> [dropAutoIncrement conn tn g] | None \<Rightarrow> [])
                  @ dropped @ added
                  @ (case generatedColumn of
                       Some g \<Rightarrow> [restoreAutoIncrement conn tn g] | None \<Rightarrow> []),
                  clonedTable1))"

text \<open>The branch \<^verbatim>\<open>if (newColumn.isUnique !== oldColumn.isUnique)\<close>.\<close>

definition isUniqueIndexOf :: "TableColumn \<Rightarrow> TableIndex \<Rightarrow> bool" where
  "isUniqueIndexOf newColumn index =
     (length (index_columnNames index) = 1 \<and> index_isUnique index
      \<and> column_name newColumn \<in> set (index_columnNames index) \<and> column_name newColumn \<noteq> [])"

definition changeUnique ::
  "Connection \<Rightarrow> Table \<Rightarrow> Table \<Rightarrow> TableColumn \<Rightarrow> error + (Query \<times> Query) list \<times> Table" where
  "changeUnique conn table clonedTable newColumn =
     (let tn = table_name table in
      if column_isUnique newColumn then
        (let uniqueIndex = newUniqueIndex conn table newColumn
         in Inr ([(AlterTableAddUniqueIndex tn (index_name uniqueIndex) (column_name newColumn),
                   AlterTableDropIndex tn (index_name uniqueIndex))],
                 clonedTable\<lparr>indices := indices clonedTable @ [uniqueIndex],
                              uniques := uniques clonedTable @ [newTableUnique uniqueIndex]\<rparr>))
      else
        (case find (isUniqueIndexOf newColumn) (indices clonedTable) of
           None \<Rightarrow> Inl TypeError
         | Some uniqueIndex \<Rightarrow>
             Inr ([(AlterTableDropIndex tn (index_name uniqueIndex),
                    AlterTableAddUniqueIndex tn (index_name uniqueIndex) (column_name newColumn))],
                  clonedTable\<lparr>
                    indices := spliceFound (isUniqueIndexOf newColumn) (indices clonedTable),
                    uniques := spliceFound (\<lambda>unique. unique_name unique = index_name uniqueIndex)
                                 (uniques clonedTable)\<rparr>)))"

text \<open>
  The \<^verbatim>\<open>else\<close> branch of \<^verbatim>\<open>changeColumn\<close>: rename, change of the definition, primary
  key, unique index, in that order. After the rename \<^verbatim>\<open>oldColumn.name\<close> has been
  overwritten with the new name, and the later steps read the overwritten object.
\<close>

definition alterColumn ::
  "Connection \<Rightarrow> Table \<Rightarrow> TableColumn \<Rightarrow> TableColumn \<Rightarrow> error + (Query \<times> Query) list \<times> Table" where
  "alterColumn conn table oldColumn newColumn =
     (let tn = table_name table;
          renamedOld = oldColumn\<lparr>column_name := column_name newColumn\<rparr>
      in case (if column_name newColumn \<noteq> column_name oldColumn
               then renameColumn conn table oldColumn newColumn else Inr ([], table)) of
           Inl e \<Rightarrow> Inl e
         | Inr (renames, cloned1) \<Rightarrow>
             (case (if column_isPrimary newColumn \<noteq> column_isPrimary renamedOld
                    then changePrimary conn tn cloned1 newColumn else Inr ([], cloned1)) of
                Inl e \<Rightarrow> Inl e
              | Inr (primary, cloned2) \<Rightarrow>
                  (case (if column_isUnique newColumn \<noteq> column_isUnique renamedOld
                         then changeUnique conn table cloned2 newColumn else Inr ([], cloned2)) of
                     Inl e \<Rightarrow> Inl e
                   | Inr (unique, cloned3) \<Rightarrow>
                       Inr (renames
                            @ (if isColumnChanged conn renamedOld newColumn True True
                               then [(AlterTableChange tn (column_name renamedOld)
                                        (buildCreateColumnSql conn newColumn True False),
                                      AlterTableChange tn (column_name newColumn)
                                        (buildCreateColumnSql conn renamedOld True False))]
                               else [])
                            @ primary @ unique,
                            cloned3))))"

text \<open>
  \<^verbatim>\<open>changeColumn\<close>. The old column is an object of the caller or, when a name is given,
  the column of that name in the table itself; in the second case the write
  \<^verbatim>\<open>oldColumn.name = newColumn.name\<close> of the rename is a write to the table that was
  given. In the first branch \<^verbatim>\<open>dropColumn\<close> and \<^verbatim>\<open>addColumn\<close> are called one after the
  other on the same \<^verbatim>\<open>table\<close> object, each ending in \<^verbatim>\<open>replaceCachedTable\<close>, and
  \<^verbatim>\<open>changeColumn\<close> pushes no statement of its own.
\<close>

definition resolveColumn :: "Table \<Rightarrow> TableColumn + string \<Rightarrow> TableColumn option" where
  "resolveColumn table oldColumnOrName =
     (case oldColumnOrName of
        Inl c \<Rightarrow> Some c
      | Inr n \<Rightarrow> find (\<lambda>column. column_name column = n) (columns table))"

definition shown :: "TableColumn + string \<Rightarrow> string" where
  "shown columnOrName = (case columnOrName of Inl c \<Rightarrow> ''[object Object]'' | Inr n \<Rightarrow> n)"

definition Mysql_changeColumn ::
  "Connection \<Rightarrow> Table \<Rightarrow> TableColumn + string \<Rightarrow> TableColumn \<Rightarrow> error + Outcome" where
  "Mysql_changeColumn conn table oldColumnOrName newColumn =
     (case resolveColumn table oldColumnOrName of
        None \<Rightarrow>
          Inl (TypeORMError (''Column '' @ dquote (shown oldColumnOrName)
                 @ '' was not found in the '' @ dquote (table_name table) @ '' table.''))
      | Some oldColumn \<Rightarrow>
          if Mysql_recreatesColumn oldColumn newColumn then
            (case Mysql_dropColumn conn table (Inl oldColumn) of
               Inl e \<Rightarrow> Inl e
             | Inr dropped \<Rightarrow>
                 (let table1 = afterReplace conn table (the (changedTable dropped));
                      added = Mysql_addColumn conn table1 newColumn;
                      table2 = afterReplace conn table1 (the (changedTable added))
                  in Inr \<lparr>queries = queries dropped @ queries added,
                          given = table2,
                          changedTable = Some table2\<rparr>))
          else
            (case alterColumn conn table oldColumn newColumn of
               Inl e \<Rightarrow> Inl e
             | Inr (qs, clonedTable) \<Rightarrow>
                 Inr \<lparr>queries = qs,
                      given =
                        (case oldColumnOrName of
                           Inl c \<Rightarrow> table
                         | Inr n \<Rightarrow>
                             (case updateFirst (\<lambda>column. column_name column = n)
                                     (\<lambda>column. column\<lparr>column_name := column_name newColumn\<rparr>)
                                     (columns table) of
                                Some cs \<Rightarrow> table\<lparr>columns := cs\<rparr>
                              | None \<Rightarrow> table)),
                      changedTable = Some clonedTable\<rparr>))"

subsection \<open>MysqlQueryRunner: primary keys\<close>

definition Mysql_createPrimaryKey :: "Connection \<Rightarrow> Table \<Rightarrow> string list \<Rightarrow> Outcome" where
  "Mysql_createPrimaryKey conn table columnNames =
     \<lparr>queries = [(createPrimaryKeySql table columnNames, dropPrimaryKeySql table)],
      given = table,
      changedTable =
        Some (table\<lparr>columns :=
                map (\<lambda>column. if column_name column \<in> set columnNames \<and> column_name column \<noteq> []
                               then column\<lparr>column_isPrimary := True\<rparr> else column)
                  (columns table)\<rparr>)\<rparr>"

definition Mysql_updatePrimaryKeys ::
  "Connection \<Rightarrow> Table \<Rightarrow> TableColumn list \<Rightarrow> error + Outcome" where
  "Mysql_updatePrimaryKeys conn table columns' =
     (let tn = table_name table;
          columnNames = map column_name columns';
          generatedColumn = find isIncrement (columns table);
          primaryColumns0 = primaryColumns table;
          clonedTable =
            table\<lparr>columns := map (\<lambda>column. if column_name column \<in> set columnNames
                                            then column\<lparr>column_isPrimary := True\<rparr> else column)
                                (columns table)\<rparr>;
          newOrExistGeneratedColumn =
            (case generatedColumn of Some g \<Rightarrow> Some g | None \<Rightarrow> find isIncrement columns');
          qs = (case generatedColumn of Some g \<Rightarrow> [dropAutoIncrement conn tn g] | None \<Rightarrow> [])
               @ (if primaryColumns0 \<noteq> []
                  then [(AlterTableDropPrimaryKey tn,
                         AlterTableAddPrimaryKey tn (map column_name primaryColumns0))]
                  else [])
               @ [(AlterTableAddPrimaryKey tn columnNames, AlterTableDropPrimaryKey tn)]
               @ (case newOrExistGeneratedColumn of
                    Some g \<Rightarrow> [restoreAutoIncrement conn tn g] | None \<Rightarrow> [])
      in case newOrExistGeneratedColumn of
           None \<Rightarrow> Inr \<lparr>queries = qs, given = table, changedTable = Some clonedTable\<rparr>
         | Some g \<Rightarrow>
             (case updateFirst (\<lambda>column. column_name column = column_name g)
                     (\<lambda>column. column\<lparr>column_isGenerated := True,
                                       column_generationStrategy := Some increment\<rparr>)
                     (columns clonedTable) of
                None \<Rightarrow> Inl TypeError
              | Some cs \<Rightarrow>
                  Inr \<lparr>queries = qs, given = table,
                       changedTable = Some (clonedTable\<lparr>columns := cs\<rparr>)\<rparr>))"

text \<open>
  \<^verbatim>\<open>dropPrimaryKey\<close> makes no clone and does not call \<^verbatim>\<open>replaceCachedTable\<close>: after
  \<^verbatim>\<open>executeQueries\<close> it clears \<^verbatim>\<open>isPrimary\<close> in the primary columns of the table it was
  given.
\<close>

definition Mysql_dropPrimaryKey :: "Connection \<Rightarrow> Table \<Rightarrow> Outcome" where
  "Mysql_dropPrimaryKey conn table =
     \<lparr>queries = [(dropPrimaryKeySql table,
                  createPrimaryKeySql table (map column_name (primaryColumns table)))],
      given = table\<lparr>columns := map (\<lambda>column. if column_isPrimary column
                                              then column\<lparr>column_isPrimary := False\<rparr> else column)
                                  (columns table)\<rparr>,
      changedTable = None\<rparr>"

subsection \<open>MysqlQueryRunner.renameTable\<close>

definition renameTableIndexQueries :: "Connection \<Rightarrow> string \<Rightarrow> TableIndex \<Rightarrow> Query \<times> Query" where
  "renameTableIndexQueries conn newName index =
     (let newIndexName = indexName conn newName (index_columnNames index) (index_where index)
      in (AlterTableDropAddIndex newName (index_name index) (indexType index) newIndexName
            (index_columnNames index) (indexParser index),
          AlterTableDropAddIndex newName newIndexName (indexType index) (index_name index)
            (index_columnNames index) (indexParser index)))"

definition renameTableForeignKeyQueries ::
  "Connection \<Rightarrow> string \<Rightarrow> TableForeignKey \<Rightarrow> Query \<times> Query" where
  "renameTableForeignKeyQueries conn newName foreignKey =
     (let newForeignKeyName =
            foreignKeyName conn newName (foreignKey_columnNames foreignKey)
              (foreignKey_referencedTableName foreignKey)
              (foreignKey_referencedColumnNames foreignKey)
      in (AlterTableDropAddForeignKey newName (foreignKey_name foreignKey) newForeignKeyName
            (foreignKey_columnNames foreignKey) (foreignKey_referencedTableName foreignKey)
            (foreignKey_referencedColumnNames foreignKey)
            (if truthy (foreignKey_onDelete foreignKey) then foreignKey_onDelete foreignKey else None)
            (if truthy (foreignKey_onUpdate foreignKey) then foreignKey_onUpdate foreignKey else None),
          AlterTableDropAddForeignKey newName newForeignKeyName (foreignKey_name foreignKey)
            (foreignKey_columnNames foreignKey) (foreignKey_referencedTableName foreignKey)
            (foreignKey_referencedColumnNames foreignKey)
            (if truthy (foreignKey_onDelete foreignKey) then foreignKey_onDelete foreignKey else None)
            (if truthy (foreignKey_onUpdate foreignKey) then foreignKey_onUpdate foreignKey else None)))"

text \<open>
  \<^verbatim>\<open>renameTable\<close> builds the renamed table on a clone and, once the statements have run,
  also writes the new name into the old table (\<^verbatim>\<open>oldTable.name = newTable.name\<close>, under
  the comment "rename old table and replace it in cached tabled") before it calls
  \<^verbatim>\<open>replaceCachedTable\<close>.
\<close>

definition Mysql_renameTable :: "Connection \<Rightarrow> Table \<Rightarrow> string \<Rightarrow> Outcome" where
  "Mysql_renameTable conn oldTable newTableName =
     (let dbName = (if CHR ''.'' \<notin> set (table_name oldTable) then None
                    else Some (takeWhile (\<lambda>c. c \<noteq> CHR ''.'') (table_name oldTable)));
          newName = (if truthy dbName then the dbName @ ''.'' @ newTableName else newTableName);
          newTable =
            oldTable\<lparr>table_name := newName,
                     indices := map (\<lambda>index. index\<lparr>index_name :=
                                       indexName conn newName (index_columnNames index)
                                         (index_where index)\<rparr>) (indices oldTable),
                     foreignKeys := map (\<lambda>fk. fk\<lparr>foreignKey_name :=
                                       foreignKeyName conn newName (foreignKey_columnNames fk)
                                         (foreignKey_referencedTableName fk)
                                         (foreignKey_referencedColumnNames fk)\<rparr>)
                                      (foreignKeys oldTable)\<rparr>
      in \<lparr>queries =
            [(RenameTable (table_name oldTable) newName, RenameTable newName (table_name oldTable))]
            @ map (renameTableIndexQueries conn newName) (indices oldTable)
            @ map (renameTableForeignKeyQueries conn newName) (foreignKeys oldTable),
          given = oldTable\<lparr>table_name := newName\<rparr>,
          changedTable = Some newTable\<rparr>)"

subsection \<open>changeColumn of the Postgres and the SQL Server runner: the choice of the branch\<close>

text \<open>
  \<^verbatim>\<open>changeColumn\<close> of the two runners begins as that of the MySQL runner. It resolves the
  old column and tests its guard. When the guard holds it calls
  \<^verbatim>\<open>dropColumn(table, oldColumn)\<close>, then \<^verbatim>\<open>addColumn(table, newColumn)\<close>, then takes a new
  clone of \<^verbatim>\<open>table\<close>, and pushes no statement; otherwise the \<^verbatim>\<open>else\<close> branch pushes the
  statements that change the column in place and edits the clone. After the branch come
  \<^verbatim>\<open>executeQueries(upQueries, downQueries)\<close> and
  \<^verbatim>\<open>replaceCachedTable(table, clonedTable)\<close>.

  Of the two runners \<^verbatim>\<open>dropColumn\<close>, \<^verbatim>\<open>addColumn\<close> and the \<^verbatim>\<open>else\<close> branch are not
  translated. They are the fields of the record \<open>ColumnMethods\<close>, and what is proved of
  \<^verbatim>\<open>changeColumn\<close> holds for every value of the three fields:
  \<open>dropColumn m table column\<close> and \<open>addColumn m table column\<close> are the error of the
  method, or the pairs of statements it ran and what the object \<^verbatim>\<open>table\<close> holds when it
  returns; \<open>alterInPlace m table oldColumn newColumn\<close> is the error of the \<^verbatim>\<open>else\<close>
  branch, or the pairs of statements it pushed and the cloned table. The statements are of
  any type \<open>'q\<close>.

  In the result, \<open>executed\<close> lists the pairs of statements that ran during the call,
  \<open>pushed\<close> those that \<^verbatim>\<open>changeColumn\<close> pushed onto its own \<^verbatim>\<open>upQueries\<close> and
  \<^verbatim>\<open>downQueries\<close>, and \<open>cached\<close> is the table handed to \<^verbatim>\<open>replaceCachedTable\<close>.
\<close>

record 'q ColumnMethods =
  dropColumn :: "Table \<Rightarrow> TableColumn \<Rightarrow> error + ('q \<times> 'q) list \<times> Table"
  addColumn :: "Table \<Rightarrow> TableColumn \<Rightarrow> error + ('q \<times> 'q) list \<times> Table"
  alterInPlace :: "Table \<Rightarrow> TableColumn \<Rightarrow> TableColumn \<Rightarrow> error + ('q \<times> 'q) list \<times> Table"

record 'q Change =
  executed :: "('q \<times> 'q) list"
  pushed :: "('q \<times> 'q) list"
  cached :: Table

definition Postgres_changeColumn ::
  "'q ColumnMethods \<Rightarrow> Table \<Rightarrow> TableColumn + string \<Rightarrow> TableColumn \<Rightarrow> error + 'q Change" where
  "Postgres_changeColumn m table oldTableColumnOrName newColumn =
     (case resolveColumn table oldTableColumnOrName of
        None \<Rightarrow>
          Inl (TypeORMError (''Column '' @ dquote (shown oldTableColumnOrName)
                 @ '' was not found in the '' @ dquote (table_name table) @ '' table.''))
      | Some oldColumn \<Rightarrow>
          if Postgres_recreatesColumn oldColumn newColumn then
            (case dropColumn m table oldColumn of
               Inl e \<Rightarrow> Inl e
             | Inr (dropped, table1) \<Rightarrow>
                 (case addColumn m table1 newColumn of
                    Inl e \<Rightarrow> Inl e
                  | Inr (added, table2) \<Rightarrow>
                      Inr \<lparr>executed = dropped @ added, pushed = [], cached = table2\<rparr>))
          else
            (case alterInPlace m table oldColumn newColumn of
               Inl e \<Rightarrow> Inl e
             | Inr (qs, clonedTable) \<Rightarrow>
                 Inr \<lparr>executed = qs, pushed = qs, cached = clonedTable\<rparr>))"

definition SqlServer_changeColumn ::
  "'q ColumnMethods \<Rightarrow> Table \<Rightarrow> TableColumn + string \<Rightarrow> TableColumn \<Rightarrow> error + 'q Change" where
  "SqlServer_changeColumn m table oldTableColumnOrName newColumn =
     (case resolveColumn table oldTableColumnOrName of
        None \<Rightarrow>
          Inl (TypeORMError (''Column '' @ dquote (shown oldTableColumnOrName)
                 @ '' was not found in the '' @ dquote (table_name table) @ '' table.''))
      | Some oldColumn \<Rightarrow>
          if SqlServer_recreatesColumn oldColumn newColumn then
            (case dropColumn m table oldColumn of
               Inl e \<Rightarrow> Inl e
             | Inr (dropped, table1) \<Rightarrow>
                 (case addColumn m table1 newColumn of
                    Inl e \<Rightarrow> Inl e
                  | Inr (added, table2) \<Rightarrow>
                      Inr \<lparr>executed = dropped @ added, pushed = [], cached = table2\<rparr>))
          else
            (case alterInPlace m table oldColumn newColumn of
               Inl e \<Rightarrow> Inl e
             | Inr (qs, clonedTable) \<Rightarrow>
                 Inr \<lparr>executed = qs, pushed = qs, cached = clonedTable\<rparr>))"

section \<open>Primary key and AUTO_INCREMENT along a list of statements\<close>

text \<open>
  What a list of statements does to the two facts claim C8 is about: which columns form
  the primary key, and which columns carry \<^verbatim>\<open>AUTO_INCREMENT\<close>. \<^verbatim>\<open>CHANGE `old` <clauses>\<close>
  redefines the column \<open>old\<close> with the name and the attributes of the clauses,
  \<^verbatim>\<open>DROP PRIMARY KEY\<close> and \<^verbatim>\<open>ADD PRIMARY KEY\<close> set the key, \<^verbatim>\<open>ADD\<close> and \<^verbatim>\<open>DROP COLUMN\<close>
  add and remove a column; the other statements touch neither fact. A state is covered
  when every column with \<^verbatim>\<open>AUTO_INCREMENT\<close> is a column of the primary key.
\<close>

record KeyState =
  primaryKey :: "string list"
  autoIncrement :: "string list"

definition definedName :: "string \<Rightarrow> Clause list \<Rightarrow> string" where
  "definedName old clauses = (case clauses of ColumnName n # rest \<Rightarrow> n | _ \<Rightarrow> old)"

fun applyQuery :: "Query \<Rightarrow> KeyState \<Rightarrow> KeyState" where
  "applyQuery (AlterTableChange t old clauses) s =
     s\<lparr>primaryKey := map (\<lambda>c. if c = old then definedName old clauses else c) (primaryKey s),
       autoIncrement := filter (\<lambda>c. c \<noteq> old) (autoIncrement s)
                          @ (if AUTO_INCREMENT \<in> set clauses then [definedName old clauses]
                             else [])\<rparr>"
| "applyQuery (AlterTableDropPrimaryKey t) s = s\<lparr>primaryKey := []\<rparr>"
| "applyQuery (AlterTableAddPrimaryKey t names) s = s\<lparr>primaryKey := names\<rparr>"
| "applyQuery (AlterTableAdd t clauses) s =
     s\<lparr>primaryKey := primaryKey s
                       @ (if PRIMARY_KEY \<in> set clauses then [definedName [] clauses] else []),
       autoIncrement := autoIncrement s
                          @ (if AUTO_INCREMENT \<in> set clauses then [definedName [] clauses]
                             else [])\<rparr>"
| "applyQuery (AlterTableDropColumn t n) s =
     s\<lparr>primaryKey := filter (\<lambda>c. c \<noteq> n) (primaryKey s),
       autoIncrement := filter (\<lambda>c. c \<noteq> n) (autoIncrement s)\<rparr>"
| "applyQuery (CreateIndex ty n t cols p) s = s"
| "applyQuery (DropIndex n t) s = s"
| "applyQuery (AlterTableAddUniqueIndex t n c) s = s"
| "applyQuery (AlterTableDropIndex t n) s = s"
| "applyQuery (AlterTableDropAddIndex t old ty new cols p) s = s"
| "applyQuery (AlterTableDropAddForeignKey t old new cols r rcols d u) s = s"
| "applyQuery (RenameTable old new) s = s"

text \<open>The states after the first, the second, ... and the last statement of a list.\<close>

fun statesAfter :: "Query list \<Rightarrow> KeyState \<Rightarrow> KeyState list" where
  "statesAfter [] s = []"
| "statesAfter (q # qs) s = applyQuery q s # statesAfter qs (applyQuery q s)"

definition covered :: "KeyState \<Rightarrow> bool" where
  "covered s = list_all (\<lambda>c. c \<in> set (primaryKey s)) (autoIncrement s)"

definition keyStateOf :: "Table \<Rightarrow> KeyState" where
  "keyStateOf table =
     \<lparr>primaryKey = map column_name (primaryColumns table),
      autoIncrement = map column_name (filter isIncrement (columns table))\<rparr>"

definition isPrimaryKeyQuery :: "Query \<Rightarrow> bool" where
  "isPrimaryKeyQuery q =
     (case q of
        AlterTableDropPrimaryKey t \<Rightarrow> True
      | AlterTableAddPrimaryKey t names \<Rightarrow> True
      | _ \<Rightarrow> False)"


section \<open>Runners and collaborators used as concrete inputs\<close>

text \<open>
  A runner as its constructor leaves it, a driver that answers every statement with no
  rows, and a driver on which the drop of a view and the rollback both fail.
\<close>

definition freshRunner :: QueryRunner where
  "freshRunner = \<lparr>isReleased = False, isTransactionActive = False, databaseConnection = False,
     databaseConnectionPromise = None, mode = master, isDirty = False, sent = []\<rparr>"

definition quietDriver :: Collaborators where
  "quietDriver = \<lparr>obtainMasterConnection = None, obtainSlaveConnection = None,
     isReplicated = False, isConnected = True,
     respond = (\<lambda>log q. Inr []),
     subscribers = (\<lambda>ev. None), driver_database = Some ''app'', options_schema = None,
     entityMetadatas_schema = []\<rparr>"

definition failingDrops :: Collaborators where
  "failingDrops = \<lparr>obtainMasterConnection = None, obtainSlaveConnection = None,
     isReplicated = False, isConnected = True,
     respond = (\<lambda>log q. if q = ''DROP VIEW v'' then Inl ''view is locked''
                        else if q = ''ROLLBACK'' then Inl ''connection lost''
                        else Inr [[(''query'', ''DROP VIEW v'')]]),
     subscribers = (\<lambda>ev. None), driver_database = Some ''app'', options_schema = None,
     entityMetadatas_schema = []\<rparr>"

text \<open>
  A driver that refuses every \<^verbatim>\<open>SELECT\<close>, with a subscriber whose promise for the event
  after a rollback rejects.
\<close>

definition deniedSelects :: Collaborators where
  "deniedSelects = \<lparr>obtainMasterConnection = None, obtainSlaveConnection = None,
     isReplicated = False, isConnected = True,
     respond = (\<lambda>log q. if take 6 q = ''SELECT'' then Inl ''permission denied'' else Inr []),
     subscribers = (\<lambda>ev. if ev = AfterTransactionRollback then Some ''subscriber failed''
                         else None),
     driver_database = Some ''app'', options_schema = None, entityMetadatas_schema = []\<rparr>"


text \<open>An SQL Server runner with an empty chain and no call made.\<close>

definition idle :: Admission where
  "idle = \<lparr>runner = freshRunner, queryResponsibilityChain = [],
           settlement = (\<lambda>p. Pending), stage = (\<lambda>i. NotCalled)\<rparr>"

subsection \<open>Tables and columns used as concrete inputs\<close>

text \<open>
  A connection whose naming strategy concatenates a prefix, the table name and the column
  names, whose \<^verbatim>\<open>createFullType\<close> prints the type and its length, whose
  \<^verbatim>\<open>isColumnChanged\<close> compares the attributes other than name, type, length, keys and
  generation, and on which \<^verbatim>\<open>replaceCachedTable\<close> overwrites the cached table; the table
  \<open>t(id int primary key, name varchar(50))\<close>; a unique column \<open>email\<close>; a table with a
  column \<open>token\<close> and two changed versions of that column; the column \<open>label\<close> that
  \<open>name\<close> is renamed to; the table after \<open>email\<close> has been added; the table whose primary
  key \<open>id\<close> is generated by increment, and a second primary column \<open>code\<close>; methods of a
  Postgres or SQL Server runner that leave a note of each call in place of its statements.
\<close>

definition sampleConnection :: Connection where
  "sampleConnection =
     \<lparr>createFullType = (\<lambda>c. column_type c @ (if column_length c = [] then []
                                              else ''('' @ column_length c @ '')'')),
      isMariaDb = False,
      isColumnChanged = (\<lambda>a b checkDefault checkComment.
         \<not> (column_charset a = column_charset b \<and> column_collation a = column_collation b
            \<and> column_zerofill a = column_zerofill b \<and> column_unsigned a = column_unsigned b
            \<and> column_asExpression a = column_asExpression b
            \<and> (if checkDefault then column_default a = column_default b else True)
            \<and> column_onUpdate a = column_onUpdate b \<and> column_isNullable a = column_isNullable b
            \<and> (if checkComment then column_comment a = column_comment b else True)
            \<and> column_enum a = column_enum b)),
      indexName = (\<lambda>t cols w. ''IDX_'' @ t @ ''_'' @ join ''_'' cols),
      uniqueConstraintName = (\<lambda>t cols. ''UQ_'' @ t @ ''_'' @ join ''_'' cols),
      foreignKeyName = (\<lambda>t cols rt rcols. ''FK_'' @ t @ ''_'' @ join ''_'' cols),
      afterReplace = (\<lambda>table changedTable. changedTable)\<rparr>"

definition plainColumn :: "string \<Rightarrow> string \<Rightarrow> string \<Rightarrow> TableColumn" where
  "plainColumn n ty len =
     \<lparr>column_name = n, column_type = ty, column_length = len, column_isArray = False,
      column_isNullable = False, column_isPrimary = False, column_isUnique = False,
      column_isGenerated = False, column_generationStrategy = None,
      column_generatedType = None, column_asExpression = None, column_zerofill = False,
      column_unsigned = False, column_enum = None, column_charset = None,
      column_collation = None, column_comment = None, column_default = None,
      column_onUpdate = None\<rparr>"

definition baseline :: Table where
  "baseline =
     \<lparr>table_name = ''t'',
      columns = [(plainColumn ''id'' ''int'' [])\<lparr>column_isPrimary := True\<rparr>,
                 plainColumn ''name'' ''varchar'' ''50''],
      indices = [], foreignKeys = [], uniques = [], checks = [], exclusions = [],
      justCreated = False, engine = None\<rparr>"

definition email :: TableColumn where
  "email = (plainColumn ''email'' ''varchar'' ''255'')\<lparr>column_isUnique := True\<rparr>"

definition token :: TableColumn where
  "token = plainColumn ''token'' ''varchar'' ''36''"

definition uuidToken :: TableColumn where
  "uuidToken = token\<lparr>column_isGenerated := True, column_generationStrategy := Some uuid\<rparr>"

definition tokens :: Table where
  "tokens = baseline\<lparr>table_name := ''tokens'', columns := columns baseline @ [token]\<rparr>"

definition widerToken :: TableColumn where
  "widerToken = token\<lparr>column_length := ''64''\<rparr>"

definition label :: TableColumn where
  "label = plainColumn ''label'' ''varchar'' ''50''"

definition withEmail :: Table where
  "withEmail = the (changedTable (Mysql_addColumn sampleConnection baseline email))"

definition idColumn :: TableColumn where
  "idColumn = (plainColumn ''id'' ''int'' [])\<lparr>column_isPrimary := True, column_isGenerated := True,
                 column_generationStrategy := Some increment\<rparr>"

definition identityTable :: Table where
  "identityTable = baseline\<lparr>columns := [idColumn, plainColumn ''name'' ''varchar'' ''50'']\<rparr>"

definition code :: TableColumn where
  "code = (plainColumn ''code'' ''int'' [])\<lparr>column_isPrimary := True\<rparr>"

definition notingMethods :: "string ColumnMethods" where
  "notingMethods =
     \<lparr>dropColumn = (\<lambda>table column.
        Inr ([(''drop '' @ column_name column, ''add '' @ column_name column)],
             Table_removeColumn table column)),
      addColumn = (\<lambda>table column.
        Inr ([(''add '' @ column_name column, ''drop '' @ column_name column)],
             Table_addColumn table column)),
      alterInPlace = (\<lambda>table oldColumn newColumn.
        Inr ([(''alter '' @ column_name oldColumn, ''alter '' @ column_name newColumn)], table))\<rparr>"

section \<open>Properties of the session\<close>

subsection \<open>What a query leaves unchanged\<close>

lemma Mysql_connect_keeps:
  "Mysql_connect env s = (r, s') \<Longrightarrow>
     isTransactionActive s' = isTransactionActive s \<and> isReleased s' = isReleased s
     \<and> sent s' = sent s"
  by (auto simp: Mysql_connect_def split: if_splits option.splits)

lemma Mysql_query_keeps:
  "Mysql_query env q s = (r, s') \<Longrightarrow>
     isTransactionActive s' = isTransactionActive s \<and> isReleased s' = isReleased s"
  by (auto simp: Mysql_query_def split: if_splits prod.splits sum.splits
      dest!: Mysql_connect_keeps)

lemma Mysql_startTransaction_active:
  assumes "Mysql_startTransaction env level s = (Inr (), s')"
  shows "\<not> isTransactionActive s \<and> isTransactionActive s'"
  using assms
  by (auto simp: Mysql_startTransaction_def andThen_def broadcast_def
      split: if_splits prod.splits sum.splits option.splits dest!: Mysql_query_keeps)

lemma Mysql_commitTransaction_idle:
  assumes "Mysql_commitTransaction env s = (Inr (), s')"
  shows "isTransactionActive s \<and> \<not> isTransactionActive s'"
  using assms
  by (auto simp: Mysql_commitTransaction_def andThen_def broadcast_def
      split: if_splits prod.splits sum.splits option.splits)

lemma Mysql_rollbackTransaction_idle:
  assumes "Mysql_rollbackTransaction env s = (Inr (), s')"
  shows "isTransactionActive s \<and> \<not> isTransactionActive s'"
  using assms
  by (auto simp: Mysql_rollbackTransaction_def andThen_def broadcast_def
      split: if_splits prod.splits sum.splits option.splits)

lemma Postgres_connect_keeps:
  "Postgres_connect env s = (r, s') \<Longrightarrow>
     isTransactionActive s' = isTransactionActive s \<and> isReleased s' = isReleased s
     \<and> sent s' = sent s"
  by (auto simp: Postgres_connect_def split: if_splits option.splits)

lemma Postgres_query_keeps:
  "Postgres_query env q s = (r, s') \<Longrightarrow>
     isTransactionActive s' = isTransactionActive s \<and> isReleased s' = isReleased s"
  by (auto simp: Postgres_query_def split: if_splits prod.splits sum.splits
      dest!: Postgres_connect_keeps)

lemma Postgres_startTransaction_active:
  assumes "Postgres_startTransaction env level s = (Inr (), s')"
  shows "\<not> isTransactionActive s \<and> isTransactionActive s'"
  using assms
  by (auto simp: Postgres_startTransaction_def andThen_def broadcast_def ret_def
      split: if_splits prod.splits sum.splits option.splits dest!: Postgres_query_keeps)

lemma Postgres_commitTransaction_idle:
  assumes "Postgres_commitTransaction env s = (Inr (), s')"
  shows "isTransactionActive s \<and> \<not> isTransactionActive s'"
  using assms
  by (auto simp: Postgres_commitTransaction_def andThen_def broadcast_def
      split: if_splits prod.splits sum.splits option.splits)

lemma Postgres_rollbackTransaction_idle:
  assumes "Postgres_rollbackTransaction env s = (Inr (), s')"
  shows "isTransactionActive s \<and> \<not> isTransactionActive s'"
  using assms
  by (auto simp: Postgres_rollbackTransaction_def andThen_def broadcast_def
      split: if_splits prod.splits sum.splits option.splits)

lemma SqlServer_startTransaction_active:
  assumes "SqlServer_startTransaction env level s = (Inr (), s')"
  shows "\<not> isTransactionActive s \<and> isTransactionActive s'"
  using assms
  by (auto simp: SqlServer_startTransaction_def andThen_def broadcast_def Let_def
      SqlServer_pool_def
      split: if_splits prod.splits sum.splits option.splits)

lemma SqlServer_commitTransaction_idle:
  assumes "SqlServer_commitTransaction env s = (Inr (), s')"
  shows "isTransactionActive s \<and> \<not> isTransactionActive s'"
  using assms
  by (auto simp: SqlServer_commitTransaction_def andThen_def broadcast_def Let_def
      split: if_splits prod.splits sum.splits option.splits)

lemma SqlServer_rollbackTransaction_idle:
  assumes "SqlServer_rollbackTransaction env s = (Inr (), s')"
  shows "isTransactionActive s \<and> \<not> isTransactionActive s'"
  using assms
  by (auto simp: SqlServer_rollbackTransaction_def andThen_def broadcast_def Let_def
      split: if_splits prod.splits sum.splits option.splits)

lemmas session_defs =
  Mysql_query_def Mysql_connect_def Mysql_startTransaction_def Mysql_commitTransaction_def
  Mysql_rollbackTransaction_def Mysql_hasDatabase_def Mysql_clearDatabase_try_def
  Mysql_clearDatabase_def Postgres_query_def Postgres_connect_def Postgres_startTransaction_def
  Postgres_commitTransaction_def Postgres_rollbackTransaction_def Postgres_dropEnumTypes_def
  Postgres_clearDatabase_try_def Postgres_clearDatabase_def schemaNamesString_def
  andThen_def ret_def throw_def broadcast_def rollbackAndRethrow_def field_def truthy_def
  quote_def backtick_def dquote_def sq_def bq_def dq_def

subsection \<open>Unique constraints on MySQL\<close>

text \<open>
  Claim C9. On the MySQL runner \<^verbatim>\<open>createUniqueConstraint\<close> and
  \<^verbatim>\<open>dropUniqueConstraint\<close> fail for every table, every constraint and every runner with
  the error "MySql does not support unique constraints", and the runner is returned as it
  was: nothing is added to the statements sent to the driver.
\<close>

theorem unique_constraint_unsupported:
  "Mysql_createUniqueConstraint tableOrName uniqueConstraint s
     = (Inl (TypeORMError ''MySql does not support unique constraints. Use unique index instead.''), s)
   \<and> Mysql_dropUniqueConstraint tableOrName uniqueOrName s
     = (Inl (TypeORMError ''MySql does not support unique constraints. Use unique index instead.''), s)"
  by (simp add: Mysql_createUniqueConstraint_def Mysql_dropUniqueConstraint_def throw_def)

subsection \<open>Queries on a released runner\<close>

text \<open>
  Claim C3. Once \<^verbatim>\<open>isReleased\<close> is set, \<^verbatim>\<open>query\<close> of each of the six runners fails
  with \<^verbatim>\<open>QueryRunnerAlreadyReleasedError\<close> for every statement and every behaviour of
  the collaborators, whether or not a connection is held, and returns the runner
  unchanged, so that no statement reaches the driver.
\<close>

theorem query_after_release:
  assumes "isReleased s"
  shows "Mysql_query env q s = (Inl QueryRunnerAlreadyReleasedError, s)
       \<and> Postgres_query env q s = (Inl QueryRunnerAlreadyReleasedError, s)
       \<and> SqlServer_query env q s = (Inl QueryRunnerAlreadyReleasedError, s)
       \<and> Sqlite_query env q s = (Inl QueryRunnerAlreadyReleasedError, s)
       \<and> Sqljs_query env q s = (Inl QueryRunnerAlreadyReleasedError, s)
       \<and> Nativescript_query env q s = (Inl QueryRunnerAlreadyReleasedError, s)"
  using assms
  by (simp add: Mysql_query_def Postgres_query_def SqlServer_query_def Sqlite_query_def
      Sqljs_query_def Nativescript_query_def)

text \<open>
  The theorem at a MySQL runner released before any connection was obtained and at a
  Postgres runner released after a successful query.
\<close>

theorem query_after_release_witness:
  "isReleased (snd (Mysql_release freshRunner))
   \<and> \<not> databaseConnection (snd (Mysql_release freshRunner))
   \<and> Mysql_query quietDriver ''SELECT 1'' (snd (Mysql_release freshRunner))
       = (Inl QueryRunnerAlreadyReleasedError, snd (Mysql_release freshRunner))
   \<and> sent (snd (Mysql_query quietDriver ''SELECT 1'' (snd (Mysql_release freshRunner)))) = []
   \<and> Postgres_query quietDriver ''SELECT 1''
        (snd (Postgres_release (snd (Postgres_query quietDriver ''SELECT 0'' freshRunner))))
       = (Inl QueryRunnerAlreadyReleasedError,
          snd (Postgres_release (snd (Postgres_query quietDriver ''SELECT 0'' freshRunner))))"
proof -
  let ?r = "snd (Mysql_release freshRunner)"
  let ?p = "snd (Postgres_release (snd (Postgres_query quietDriver ''SELECT 0'' freshRunner)))"
  have r: "isReleased ?r" "\<not> databaseConnection ?r" "sent ?r = []"
    by (simp_all add: Mysql_release_def freshRunner_def)
  have p: "isReleased ?p"
    by (simp add: Postgres_release_def Postgres_query_def Postgres_connect_def
        quietDriver_def freshRunner_def)
  from query_after_release [OF r(1), of quietDriver "''SELECT 1''"]
    query_after_release [OF p, of quietDriver "''SELECT 1''"] r
  show ?thesis by simp
qed

subsection \<open>The transaction flag\<close>

text \<open>
  On the MySQL and the Postgres runner, and on an SQL Server runner that has not been
  released, the flag \<^verbatim>\<open>isTransactionActive\<close> is the state of the claim:
  \<^verbatim>\<open>startTransaction\<close> fails with \<^verbatim>\<open>TransactionAlreadyStartedError\<close> when it is set,
  \<^verbatim>\<open>commitTransaction\<close> and \<^verbatim>\<open>rollbackTransaction\<close> fail with
  \<^verbatim>\<open>TransactionNotStartedError\<close> when it is not, each leaving the runner as it was; a
  start that succeeds began idle and ends active, a commit or rollback that succeeds began
  active and ends idle.
\<close>

lemma transaction_flag_is_the_state:
  "(isTransactionActive s \<longrightarrow>
      Mysql_startTransaction env level s = (Inl TransactionAlreadyStartedError, s)
      \<and> Postgres_startTransaction env level s = (Inl TransactionAlreadyStartedError, s))
   \<and> (\<not> isTransactionActive s \<longrightarrow>
      Mysql_commitTransaction env s = (Inl TransactionNotStartedError, s)
      \<and> Mysql_rollbackTransaction env s = (Inl TransactionNotStartedError, s)
      \<and> Postgres_commitTransaction env s = (Inl TransactionNotStartedError, s)
      \<and> Postgres_rollbackTransaction env s = (Inl TransactionNotStartedError, s))
   \<and> (Mysql_startTransaction env level s = (Inr (), s') \<longrightarrow>
        \<not> isTransactionActive s \<and> isTransactionActive s')
   \<and> (Mysql_commitTransaction env s = (Inr (), s') \<longrightarrow>
        isTransactionActive s \<and> \<not> isTransactionActive s')
   \<and> (Mysql_rollbackTransaction env s = (Inr (), s') \<longrightarrow>
        isTransactionActive s \<and> \<not> isTransactionActive s')
   \<and> (Postgres_startTransaction env level s = (Inr (), s') \<longrightarrow>
        \<not> isTransactionActive s \<and> isTransactionActive s')
   \<and> (Postgres_commitTransaction env s = (Inr (), s') \<longrightarrow>
        isTransactionActive s \<and> \<not> isTransactionActive s')
   \<and> (Postgres_rollbackTransaction env s = (Inr (), s') \<longrightarrow>
        isTransactionActive s \<and> \<not> isTransactionActive s')
   \<and> (\<not> isReleased s \<and> isTransactionActive s \<longrightarrow>
      SqlServer_startTransaction env level s = (Inl TransactionAlreadyStartedError, s))
   \<and> (\<not> isReleased s \<and> \<not> isTransactionActive s \<longrightarrow>
      SqlServer_commitTransaction env s = (Inl TransactionNotStartedError, s)
      \<and> SqlServer_rollbackTransaction env s = (Inl TransactionNotStartedError, s))
   \<and> (SqlServer_startTransaction env level s = (Inr (), s') \<longrightarrow>
        \<not> isTransactionActive s \<and> isTransactionActive s')
   \<and> (SqlServer_commitTransaction env s = (Inr (), s') \<longrightarrow>
        isTransactionActive s \<and> \<not> isTransactionActive s')
   \<and> (SqlServer_rollbackTransaction env s = (Inr (), s') \<longrightarrow>
        isTransactionActive s \<and> \<not> isTransactionActive s')"
proof -
  have a: "isTransactionActive s \<longrightarrow>
      Mysql_startTransaction env level s = (Inl TransactionAlreadyStartedError, s)
      \<and> Postgres_startTransaction env level s = (Inl TransactionAlreadyStartedError, s)"
    by (simp add: Mysql_startTransaction_def Postgres_startTransaction_def)
  have b: "\<not> isTransactionActive s \<longrightarrow>
      Mysql_commitTransaction env s = (Inl TransactionNotStartedError, s)
      \<and> Mysql_rollbackTransaction env s = (Inl TransactionNotStartedError, s)
      \<and> Postgres_commitTransaction env s = (Inl TransactionNotStartedError, s)
      \<and> Postgres_rollbackTransaction env s = (Inl TransactionNotStartedError, s)"
    by (simp add: Mysql_commitTransaction_def Mysql_rollbackTransaction_def
        Postgres_commitTransaction_def Postgres_rollbackTransaction_def)
  have c: "\<not> isReleased s \<and> isTransactionActive s \<longrightarrow>
      SqlServer_startTransaction env level s = (Inl TransactionAlreadyStartedError, s)"
    by (simp add: SqlServer_startTransaction_def)
  have d: "\<not> isReleased s \<and> \<not> isTransactionActive s \<longrightarrow>
      SqlServer_commitTransaction env s = (Inl TransactionNotStartedError, s)
      \<and> SqlServer_rollbackTransaction env s = (Inl TransactionNotStartedError, s)"
    by (simp add: SqlServer_commitTransaction_def SqlServer_rollbackTransaction_def)
  show ?thesis
    using a b c d Mysql_startTransaction_active [of env level s s']
      Mysql_commitTransaction_idle [of env s s'] Mysql_rollbackTransaction_idle [of env s s']
      Postgres_startTransaction_active [of env level s s']
      Postgres_commitTransaction_idle [of env s s']
      Postgres_rollbackTransaction_idle [of env s s']
      SqlServer_startTransaction_active [of env level s s']
      SqlServer_commitTransaction_idle [of env s s']
      SqlServer_rollbackTransaction_idle [of env s s']
    by blast
qed


subsection \<open>clearDatabase\<close>

text \<open>
  When \<^verbatim>\<open>clearDatabase\<close> of the MySQL or the Postgres runner has started its
  transaction and the body of its \<^verbatim>\<open>try\<close> block fails with an error \<open>e\<close>, leaving the
  runner \<open>s2\<close>, then \<^verbatim>\<open>clearDatabase\<close> fails with that same \<open>e\<close>, and the runner it leaves
  is the one \<^verbatim>\<open>rollbackTransaction\<close> leaves when run on \<open>s2\<close>: the rollback is attempted
  and its own outcome, error or not, is dropped.
\<close>

lemma clearDatabase_rethrows_original_error:
  "(truthy dbName \<and> dbName = (if truthy database then database else driver_database env)
      \<and> Mysql_hasDatabase env (the dbName) s = (Inr True, s0)
      \<and> Mysql_startTransaction env None s0 = (Inr (), s1)
      \<and> Mysql_clearDatabase_try env (the dbName) s1 = (Inl e, s2)
    \<longrightarrow> Mysql_clearDatabase env database s = (Inl e, snd (Mysql_rollbackTransaction env s2)))
   \<and> (Postgres_startTransaction env None s = (Inr (), p1)
      \<and> Postgres_clearDatabase_try env (schemaNamesString env) p1 = (Inl e', p2)
    \<longrightarrow> Postgres_clearDatabase env s = (Inl e', snd (Postgres_rollbackTransaction env p2)))"
  by (auto simp add: Mysql_clearDatabase_def Postgres_clearDatabase_def andThen_def
      rollbackAndRethrow_def ret_def Let_def)

text \<open>
  The theorem on a driver that fails the drop of a view and then fails the rollback too:
  the caller sees the error of the drop, and \<^verbatim>\<open>ROLLBACK\<close> is the last statement sent.
\<close>

lemma clearDatabase_rethrows_witness:
  "Mysql_clearDatabase failingDrops None freshRunner
     = (Inl (QueryFailedError ''DROP VIEW v'' ''view is locked''),
        snd (Mysql_clearDatabase failingDrops None freshRunner))
   \<and> last (sent (snd (Mysql_clearDatabase failingDrops None freshRunner))) = ''ROLLBACK''
   \<and> Postgres_clearDatabase failingDrops freshRunner
     = (Inl (QueryFailedError ''DROP VIEW v'' ''view is locked''),
        snd (Postgres_clearDatabase failingDrops freshRunner))
   \<and> last (sent (snd (Postgres_clearDatabase failingDrops freshRunner))) = ''ROLLBACK''"
proof -
  let ?env = failingDrops
  let ?s0 = "snd (Mysql_hasDatabase ?env ''app'' freshRunner)"
  let ?s1 = "snd (Mysql_startTransaction ?env None ?s0)"
  let ?s2 = "snd (Mysql_clearDatabase_try ?env ''app'' ?s1)"
  let ?e = "QueryFailedError ''DROP VIEW v'' ''view is locked''"
  let ?p1 = "snd (Postgres_startTransaction ?env None freshRunner)"
  let ?p2 = "snd (Postgres_clearDatabase_try ?env (schemaNamesString ?env) ?p1)"
  have m0: "truthy (Some ''app'')
      \<and> Some ''app'' = (if truthy None then None else driver_database ?env)"
    by (simp add: truthy_def failingDrops_def)
  have m1: "Mysql_hasDatabase ?env (the (Some ''app'')) freshRunner = (Inr True, ?s0)"
    by (simp add: session_defs failingDrops_def freshRunner_def)
  have m2: "Mysql_startTransaction ?env None ?s0 = (Inr (), ?s1)"
    by (simp add: session_defs failingDrops_def freshRunner_def)
  have m3: "Mysql_clearDatabase_try ?env (the (Some ''app'')) ?s1 = (Inl ?e, ?s2)"
    by (simp add: session_defs failingDrops_def freshRunner_def)
  have q1: "Postgres_startTransaction ?env None freshRunner = (Inr (), ?p1)"
    by (simp add: session_defs failingDrops_def freshRunner_def)
  have q2: "Postgres_clearDatabase_try ?env (schemaNamesString ?env) ?p1 = (Inl ?e, ?p2)"
    by (simp add: session_defs failingDrops_def freshRunner_def)
  note t = clearDatabase_rethrows_original_error
    [of "Some ''app''" None ?env freshRunner ?s0 ?s1 ?e ?s2 ?p1 ?e ?p2]
  from t m0 m1 m2 m3 have a: "Mysql_clearDatabase ?env None freshRunner
      = (Inl ?e, snd (Mysql_rollbackTransaction ?env ?s2))"
    by blast
  from t q1 q2 have b: "Postgres_clearDatabase ?env freshRunner
      = (Inl ?e, snd (Postgres_rollbackTransaction ?env ?p2))"
    by blast
  have c: "last (sent (snd (Mysql_rollbackTransaction ?env ?s2))) = ''ROLLBACK''"
    by (simp add: session_defs failingDrops_def freshRunner_def)
  have d: "last (sent (snd (Postgres_rollbackTransaction ?env ?p2))) = ''ROLLBACK''"
    by (simp add: session_defs failingDrops_def freshRunner_def)
  from a b c d show ?thesis by simp
qed

text \<open>
  The handler of the SQL Server runner rethrows the error of the body when the body and
  the rollback both settle.
\<close>

lemma SqlServer_clearDatabase_rethrows:
  assumes "\<not> truthy database"
    and "SqlServer_startTransaction env None s = (Inr (), s1)"
    and "SqlServer_clearDatabase_try env database s1 = (Inl e, s2)"
    and "e \<noteq> NeverSettles"
    and "fst (SqlServer_rollbackTransaction env s2) \<noteq> Inl NeverSettles"
  shows "SqlServer_clearDatabase env database s
           = (Inl e, snd (SqlServer_rollbackTransaction env s2))"
  using assms
  by (simp add: SqlServer_clearDatabase_def SqlServer_rollbackAndRethrow_def andThen_def
      Let_def)

text \<open>
  Claim C2 does not hold of the code. On the SQL Server runner \<^verbatim>\<open>clearDatabase\<close> starts
  its transaction, the first statement of the \<^verbatim>\<open>try\<close> block is refused by the driver, and
  the handler calls \<^verbatim>\<open>rollbackTransaction\<close>. The driver rolls back, and the promise of a
  subscriber for the event after the rollback rejects: the callback of
  \<^verbatim>\<open>rollbackTransaction\<close> stops before \<^verbatim>\<open>ok()\<close>, the promise the handler awaits never
  settles, and \<^verbatim>\<open>throw error\<close> is not reached. The caller never sees the error of the
  refused statement. With no rejecting subscriber the same run ends with that error.
\<close>

theorem SqlServer_clearDatabase_never_rethrows:
  "SqlServer_startTransaction deniedSelects None freshRunner
     = (Inr (), freshRunner\<lparr>isTransactionActive := True, databaseConnection := True,
                            sent := [''BEGIN TRANSACTION'']\<rparr>)
   \<and> fst (SqlServer_clearDatabase_try deniedSelects None
           (freshRunner\<lparr>isTransactionActive := True, databaseConnection := True,
                         sent := [''BEGIN TRANSACTION'']\<rparr>))
     = Inl (QueryFailedError (SqlServer_allViewsSql None) ''permission denied'')
   \<and> SqlServer_clearDatabase deniedSelects None freshRunner
     = (Inl NeverSettles,
        freshRunner\<lparr>sent := [''BEGIN TRANSACTION'', SqlServer_allViewsSql None, ''ROLLBACK'']\<rparr>)
   \<and> SqlServer_clearDatabase (deniedSelects\<lparr>subscribers := (\<lambda>ev. None)\<rparr>) None freshRunner
     = (Inl (QueryFailedError (SqlServer_allViewsSql None) ''permission denied''),
        freshRunner\<lparr>sent := [''BEGIN TRANSACTION'', SqlServer_allViewsSql None, ''ROLLBACK'']\<rparr>)"
  by (simp add: SqlServer_clearDatabase_def SqlServer_clearDatabase_try_def
      SqlServer_rollbackAndRethrow_def SqlServer_startTransaction_def
      SqlServer_rollbackTransaction_def SqlServer_query_def SqlServer_pool_def
      SqlServer_allViewsSql_def andThen_def broadcast_def truthy_def dquote_def dq_def
      deniedSelects_def freshRunner_def Let_def)

section \<open>Properties of the schema methods\<close>

lemmas schema_defs =
  Mysql_addColumn_def Mysql_dropColumn_def dropColumnFound_def Mysql_changeColumn_def
  alterColumn_def renameColumn_def changePrimary_def changeUnique_def
  Mysql_createPrimaryKey_def Mysql_updatePrimaryKeys_def Mysql_dropPrimaryKey_def
  Mysql_renameTable_def renameTableIndexQueries_def renameTableForeignKeyQueries_def
  renameIndex_def renameIndexQueries_def renameForeignKey_def renameForeignKeyQueries_def
  Mysql_recreatesColumn_def Postgres_recreatesColumn_def SqlServer_recreatesColumn_def
  resolveColumn_def shown_def setIsPrimary_def isUniqueIndexOf_def
  dropAutoIncrement_def restoreAutoIncrement_def newUniqueIndex_def newTableUnique_def
  isColumnIndex_def isIncrement_def nonGenerated_def buildCreateColumnSql_def
  createIndexSql_def dropIndexSql_def createPrimaryKeySql_def dropPrimaryKeySql_def
  indexType_def indexParser_def escapeComment_def spliceFound_def
  Table_addColumn_def Table_removeColumn_def primaryColumns_def findColumnByName_def
  findColumnIndices_def findColumnForeignKeys_def upQueries_def downQueries_def
  truthy_def Let_def

lemmas sample_defs = sampleConnection_def plainColumn_def baseline_def email_def

lemma dropColumnFound_last:
  "dropColumnFound conn table column = Inr dropped \<Longrightarrow>
     last (upQueries dropped) = AlterTableDropColumn (table_name table) (column_name column)"
  by (auto simp: dropColumnFound_def upQueries_def Let_def
      split: prod.splits sum.splits if_splits option.splits)

lemma addColumn_hd:
  "hd (upQueries (Mysql_addColumn conn table column))
     = AlterTableAdd (table_name table)
         (buildCreateColumnSql conn column (primaryColumns table \<noteq> []) False)"
  by (simp add: Mysql_addColumn_def upQueries_def Let_def split: prod.splits)

subsection \<open>addColumn followed by dropColumn\<close>

text \<open>
  Claim C1. The claim asks that undoing a change restores the table model, and names
  \<^verbatim>\<open>addColumn\<close> of a unique column followed by \<^verbatim>\<open>dropColumn\<close> of it. On the table
  \<open>t(id int primary key, name varchar(50))\<close> the MySQL runner adds the column \<open>email\<close>
  with a unique index and an entry in \<^verbatim>\<open>uniques\<close>; dropping the column again removes the
  column and the index and leaves the entry in \<^verbatim>\<open>uniques\<close>, so the table that results is
  not the table the two calls started from.
\<close>

theorem addColumn_dropColumn_leaves_unique:
  "(case Mysql_dropColumn sampleConnection
           (the (changedTable (Mysql_addColumn sampleConnection baseline email)))
           (Inr ''email'') of
      Inl e \<Rightarrow> None
    | Inr out \<Rightarrow> changedTable out)
   = Some (baseline\<lparr>uniques :=
             [\<lparr>unique_name = ''IDX_t_email'', unique_columnNames = [''email'']\<rparr>]\<rparr>)
   \<and> uniques baseline = []"
  by (simp add: schema_defs sample_defs)

subsection \<open>changeColumn as dropColumn and addColumn\<close>

text \<open>
  Claim C6, as amended. \<^verbatim>\<open>changeColumn\<close> executes the change as \<^verbatim>\<open>dropColumn\<close> of the old
  column followed by \<^verbatim>\<open>addColumn\<close> of the new one, with no statement of its own, when
  the guard of its first branch holds, and changes the column in place when it does not.
  The guard holds on the MySQL, the Postgres and the SQL Server runner when the type or
  the length differ, and on the MySQL and the SQL Server runner when \<^verbatim>\<open>isGenerated\<close>
  differs and the new generation strategy is not \<^verbatim>\<open>uuid\<close>. It does not hold, the other
  attributes it reads being equal, on the MySQL and the SQL Server runner when
  \<^verbatim>\<open>isGenerated\<close> is unchanged, whatever becomes of the generation strategy, or when the
  new strategy is \<^verbatim>\<open>uuid\<close>, and on the Postgres runner whatever becomes of the generation.

  On the MySQL runner the statements of the first branch are those of the two calls, on
  the table as \<^verbatim>\<open>replaceCachedTable\<close> left it: the last of the first call is the
  \<^verbatim>\<open>DROP COLUMN\<close> of the old column and the first of the second the \<^verbatim>\<open>ADD\<close> of the new
  one, and the method fails as \<^verbatim>\<open>dropColumn\<close> fails; the other branch is \<open>alterColumn\<close>.
  On the Postgres and the SQL Server runner the first branch runs the statements of
  \<^verbatim>\<open>dropColumn(table, oldColumn)\<close> and then those of \<^verbatim>\<open>addColumn(table, newColumn)\<close>,
  pushes nothing, and fails as the first of the two that fails; the other branch is the
  change in place.
\<close>

theorem changeColumn_recreates_column:
  "(column_type oldColumn \<noteq> column_type newColumn
      \<or> column_length oldColumn \<noteq> column_length newColumn
     \<longrightarrow> Mysql_recreatesColumn oldColumn newColumn
         \<and> Postgres_recreatesColumn oldColumn newColumn
         \<and> SqlServer_recreatesColumn oldColumn newColumn)
   \<and> (column_isGenerated newColumn \<noteq> column_isGenerated oldColumn
      \<and> column_generationStrategy newColumn \<noteq> Some uuid
     \<longrightarrow> Mysql_recreatesColumn oldColumn newColumn
         \<and> SqlServer_recreatesColumn oldColumn newColumn)
   \<and> (column_type oldColumn = column_type newColumn
      \<and> column_length oldColumn = column_length newColumn
      \<and> (column_isGenerated newColumn = column_isGenerated oldColumn
           \<or> column_generationStrategy newColumn = Some uuid)
     \<longrightarrow> \<not> SqlServer_recreatesColumn oldColumn newColumn
         \<and> (column_generatedType oldColumn = column_generatedType newColumn
              \<longrightarrow> \<not> Mysql_recreatesColumn oldColumn newColumn))
   \<and> (column_type oldColumn = column_type newColumn
      \<and> column_length oldColumn = column_length newColumn
      \<and> column_isArray newColumn = column_isArray oldColumn
     \<longrightarrow> \<not> Postgres_recreatesColumn oldColumn newColumn)
   \<and> (resolveColumn table oldColumnOrName = Some oldColumn
      \<and> Mysql_recreatesColumn oldColumn newColumn
      \<and> Mysql_dropColumn conn table (Inl oldColumn) = Inr dropped
      \<and> table1 = afterReplace conn table (the (changedTable dropped))
     \<longrightarrow> (case Mysql_changeColumn conn table oldColumnOrName newColumn of
           Inl e \<Rightarrow> False
         | Inr out \<Rightarrow>
             queries out = queries dropped @ queries (Mysql_addColumn conn table1 newColumn))
         \<and> last (upQueries dropped)
             = AlterTableDropColumn (table_name table) (column_name oldColumn)
         \<and> hd (upQueries (Mysql_addColumn conn table1 newColumn))
             = AlterTableAdd (table_name table1)
                 (buildCreateColumnSql conn newColumn (primaryColumns table1 \<noteq> []) False))
   \<and> (resolveColumn table oldColumnOrName = Some oldColumn
      \<and> Mysql_recreatesColumn oldColumn newColumn
      \<and> Mysql_dropColumn conn table (Inl oldColumn) = Inl e
     \<longrightarrow> Mysql_changeColumn conn table oldColumnOrName newColumn = Inl e)
   \<and> (resolveColumn table oldColumnOrName = Some oldColumn
      \<and> \<not> Mysql_recreatesColumn oldColumn newColumn
     \<longrightarrow> (case Mysql_changeColumn conn table oldColumnOrName newColumn of
           Inl e \<Rightarrow> alterColumn conn table oldColumn newColumn = Inl e
         | Inr out \<Rightarrow>
             alterColumn conn table oldColumn newColumn
               = Inr (queries out, the (changedTable out))))
   \<and> (resolveColumn table oldColumnOrName = Some oldColumn
      \<and> Postgres_recreatesColumn oldColumn newColumn
     \<longrightarrow> Postgres_changeColumn m table oldColumnOrName newColumn
         = (case dropColumn m table oldColumn of
              Inl e \<Rightarrow> Inl e
            | Inr (statements1, table1) \<Rightarrow>
                (case addColumn m table1 newColumn of
                   Inl e \<Rightarrow> Inl e
                 | Inr (statements2, table2) \<Rightarrow>
                     Inr \<lparr>executed = statements1 @ statements2, pushed = [],
                          cached = table2\<rparr>)))
   \<and> (resolveColumn table oldColumnOrName = Some oldColumn
      \<and> \<not> Postgres_recreatesColumn oldColumn newColumn
     \<longrightarrow> Postgres_changeColumn m table oldColumnOrName newColumn
         = (case alterInPlace m table oldColumn newColumn of
              Inl e \<Rightarrow> Inl e
            | Inr (statements, clonedTable) \<Rightarrow>
                Inr \<lparr>executed = statements, pushed = statements, cached = clonedTable\<rparr>))
   \<and> (resolveColumn table oldColumnOrName = Some oldColumn
      \<and> SqlServer_recreatesColumn oldColumn newColumn
     \<longrightarrow> SqlServer_changeColumn m table oldColumnOrName newColumn
         = (case dropColumn m table oldColumn of
              Inl e \<Rightarrow> Inl e
            | Inr (statements1, table1) \<Rightarrow>
                (case addColumn m table1 newColumn of
                   Inl e \<Rightarrow> Inl e
                 | Inr (statements2, table2) \<Rightarrow>
                     Inr \<lparr>executed = statements1 @ statements2, pushed = [],
                          cached = table2\<rparr>)))
   \<and> (resolveColumn table oldColumnOrName = Some oldColumn
      \<and> \<not> SqlServer_recreatesColumn oldColumn newColumn
     \<longrightarrow> SqlServer_changeColumn m table oldColumnOrName newColumn
         = (case alterInPlace m table oldColumn newColumn of
              Inl e \<Rightarrow> Inl e
            | Inr (statements, clonedTable) \<Rightarrow>
                Inr \<lparr>executed = statements, pushed = statements, cached = clonedTable\<rparr>))"
proof -
  have a: "column_type oldColumn \<noteq> column_type newColumn
      \<or> column_length oldColumn \<noteq> column_length newColumn
     \<longrightarrow> Mysql_recreatesColumn oldColumn newColumn
         \<and> Postgres_recreatesColumn oldColumn newColumn
         \<and> SqlServer_recreatesColumn oldColumn newColumn"
    by (auto simp: Mysql_recreatesColumn_def Postgres_recreatesColumn_def
        SqlServer_recreatesColumn_def)
  have b: "column_isGenerated newColumn \<noteq> column_isGenerated oldColumn
      \<and> column_generationStrategy newColumn \<noteq> Some uuid
     \<longrightarrow> Mysql_recreatesColumn oldColumn newColumn
         \<and> SqlServer_recreatesColumn oldColumn newColumn"
    by (auto simp: Mysql_recreatesColumn_def SqlServer_recreatesColumn_def)
  have b1: "column_type oldColumn = column_type newColumn
      \<and> column_length oldColumn = column_length newColumn
      \<and> (column_isGenerated newColumn = column_isGenerated oldColumn
           \<or> column_generationStrategy newColumn = Some uuid)
     \<longrightarrow> \<not> SqlServer_recreatesColumn oldColumn newColumn
         \<and> (column_generatedType oldColumn = column_generatedType newColumn
              \<longrightarrow> \<not> Mysql_recreatesColumn oldColumn newColumn)"
    by (auto simp: Mysql_recreatesColumn_def SqlServer_recreatesColumn_def)
  have b2: "column_type oldColumn = column_type newColumn
      \<and> column_length oldColumn = column_length newColumn
      \<and> column_isArray newColumn = column_isArray oldColumn
     \<longrightarrow> \<not> Postgres_recreatesColumn oldColumn newColumn"
    by (simp add: Postgres_recreatesColumn_def)
  have c: "resolveColumn table oldColumnOrName = Some oldColumn
      \<and> Mysql_recreatesColumn oldColumn newColumn
      \<and> Mysql_dropColumn conn table (Inl oldColumn) = Inr dropped
      \<and> table1 = afterReplace conn table (the (changedTable dropped))
     \<longrightarrow> (case Mysql_changeColumn conn table oldColumnOrName newColumn of
           Inl e \<Rightarrow> False
         | Inr out \<Rightarrow>
             queries out = queries dropped @ queries (Mysql_addColumn conn table1 newColumn))"
    by (simp add: Mysql_changeColumn_def Let_def)
  have d: "Mysql_dropColumn conn table (Inl oldColumn) = Inr dropped
     \<longrightarrow> last (upQueries dropped)
             = AlterTableDropColumn (table_name table) (column_name oldColumn)"
    by (simp add: Mysql_dropColumn_def dropColumnFound_last)
  have e: "resolveColumn table oldColumnOrName = Some oldColumn
      \<and> Mysql_recreatesColumn oldColumn newColumn
      \<and> Mysql_dropColumn conn table (Inl oldColumn) = Inl e
     \<longrightarrow> Mysql_changeColumn conn table oldColumnOrName newColumn = Inl e"
    by (simp add: Mysql_changeColumn_def)
  have f: "resolveColumn table oldColumnOrName = Some oldColumn
      \<and> \<not> Mysql_recreatesColumn oldColumn newColumn
     \<longrightarrow> (case Mysql_changeColumn conn table oldColumnOrName newColumn of
           Inl e \<Rightarrow> alterColumn conn table oldColumn newColumn = Inl e
         | Inr out \<Rightarrow>
             alterColumn conn table oldColumn newColumn
               = Inr (queries out, the (changedTable out)))"
    by (cases "alterColumn conn table oldColumn newColumn")
       (auto simp: Mysql_changeColumn_def)
  have g: "resolveColumn table oldColumnOrName = Some oldColumn
      \<and> Postgres_recreatesColumn oldColumn newColumn
     \<longrightarrow> Postgres_changeColumn m table oldColumnOrName newColumn
         = (case dropColumn m table oldColumn of
              Inl e \<Rightarrow> Inl e
            | Inr (statements1, table1) \<Rightarrow>
                (case addColumn m table1 newColumn of
                   Inl e \<Rightarrow> Inl e
                 | Inr (statements2, table2) \<Rightarrow>
                     Inr \<lparr>executed = statements1 @ statements2, pushed = [],
                          cached = table2\<rparr>))"
    by (simp add: Postgres_changeColumn_def)
  have h: "resolveColumn table oldColumnOrName = Some oldColumn
      \<and> \<not> Postgres_recreatesColumn oldColumn newColumn
     \<longrightarrow> Postgres_changeColumn m table oldColumnOrName newColumn
         = (case alterInPlace m table oldColumn newColumn of
              Inl e \<Rightarrow> Inl e
            | Inr (statements, clonedTable) \<Rightarrow>
                Inr \<lparr>executed = statements, pushed = statements, cached = clonedTable\<rparr>)"
    by (simp add: Postgres_changeColumn_def)
  have i: "resolveColumn table oldColumnOrName = Some oldColumn
      \<and> SqlServer_recreatesColumn oldColumn newColumn
     \<longrightarrow> SqlServer_changeColumn m table oldColumnOrName newColumn
         = (case dropColumn m table oldColumn of
              Inl e \<Rightarrow> Inl e
            | Inr (statements1, table1) \<Rightarrow>
                (case addColumn m table1 newColumn of
                   Inl e \<Rightarrow> Inl e
                 | Inr (statements2, table2) \<Rightarrow>
                     Inr \<lparr>executed = statements1 @ statements2, pushed = [],
                          cached = table2\<rparr>))"
    by (simp add: SqlServer_changeColumn_def)
  have j: "resolveColumn table oldColumnOrName = Some oldColumn
      \<and> \<not> SqlServer_recreatesColumn oldColumn newColumn
     \<longrightarrow> SqlServer_changeColumn m table oldColumnOrName newColumn
         = (case alterInPlace m table oldColumn newColumn of
              Inl e \<Rightarrow> Inl e
            | Inr (statements, clonedTable) \<Rightarrow>
                Inr \<lparr>executed = statements, pushed = statements, cached = clonedTable\<rparr>)"
    by (simp add: SqlServer_changeColumn_def)
  from a b b1 b2 c d e f g h i j addColumn_hd [of conn table1 newColumn]
  show ?thesis by blast
qed

text \<open>
  The theorem on a change of the length of \<open>token\<close> from 36 to 64, on the three runners,
  and on the change of \<open>token\<close> into a column generated by increment on the Postgres
  runner, which is made in place.
\<close>

theorem changeColumn_recreates_witness:
  "column_length token \<noteq> column_length widerToken
   \<and> (case Mysql_changeColumn sampleConnection tokens (Inr ''token'') widerToken of
         Inl e \<Rightarrow> None
       | Inr out \<Rightarrow> Some (upQueries out))
     = Some [AlterTableDropColumn ''tokens'' ''token'',
             AlterTableAdd ''tokens'' [ColumnName ''token'', FullType ''varchar(64)'', NOT_NULL]]
   \<and> Postgres_changeColumn notingMethods tokens (Inr ''token'') widerToken
     = Inr \<lparr>executed = [(''drop token'', ''add token''), (''add token'', ''drop token'')],
            pushed = [],
            cached = tokens\<lparr>columns := columns baseline @ [widerToken]\<rparr>\<rparr>
   \<and> SqlServer_changeColumn notingMethods tokens (Inr ''token'') widerToken
     = Inr \<lparr>executed = [(''drop token'', ''add token''), (''add token'', ''drop token'')],
            pushed = [],
            cached = tokens\<lparr>columns := columns baseline @ [widerToken]\<rparr>\<rparr>
   \<and> Postgres_changeColumn notingMethods tokens (Inr ''token'')
         (token\<lparr>column_isGenerated := True, column_generationStrategy := Some increment\<rparr>)
     = Inr \<lparr>executed = [(''alter token'', ''alter token'')],
            pushed = [(''alter token'', ''alter token'')], cached = tokens\<rparr>"
proof -
  let ?dropped = "\<lparr>queries = [(AlterTableDropColumn ''tokens'' ''token'',
        AlterTableAdd ''tokens'' [ColumnName ''token'', FullType ''varchar(36)'', NOT_NULL])],
      given = tokens, changedTable = Some (tokens\<lparr>columns := columns baseline\<rparr>)\<rparr>"
  let ?t1 = "afterReplace sampleConnection tokens (the (changedTable ?dropped))"
  let ?inc = "token\<lparr>column_isGenerated := True, column_generationStrategy := Some increment\<rparr>"
  have h1: "column_type token \<noteq> column_type widerToken
      \<or> column_length token \<noteq> column_length widerToken"
    "column_length token \<noteq> column_length widerToken"
    by (simp_all add: sample_defs token_def widerToken_def)
  have h2: "resolveColumn tokens (Inr ''token'') = Some token"
    by (simp add: schema_defs sample_defs token_def tokens_def)
  have h3: "Mysql_dropColumn sampleConnection tokens (Inl token) = Inr ?dropped"
    by (simp add: schema_defs sample_defs token_def tokens_def)
  have h4: "column_type token = column_type ?inc \<and> column_length token = column_length ?inc
      \<and> column_isArray ?inc = column_isArray token"
    by simp
  note t = changeColumn_recreates_column
    [where oldColumn = token and newColumn = widerToken and table = tokens
       and oldColumnOrName = "Inr ''token''" and conn = sampleConnection
       and dropped = ?dropped and ?table1.0 = ?t1 and m = notingMethods]
  note u = changeColumn_recreates_column
    [where oldColumn = token and newColumn = ?inc and table = tokens
       and oldColumnOrName = "Inr ''token''" and m = notingMethods]
  from t h1 have r: "Mysql_recreatesColumn token widerToken"
    "Postgres_recreatesColumn token widerToken" "SqlServer_recreatesColumn token widerToken"
    by blast+
  from t h2 h3 r have
    "case Mysql_changeColumn sampleConnection tokens (Inr ''token'') widerToken of
       Inl e \<Rightarrow> False
     | Inr out \<Rightarrow>
         queries out = queries ?dropped @ queries (Mysql_addColumn sampleConnection ?t1 widerToken)"
    by blast
  then have "(case Mysql_changeColumn sampleConnection tokens (Inr ''token'') widerToken of
         Inl e \<Rightarrow> None
       | Inr out \<Rightarrow> Some (upQueries out))
     = Some (map fst (queries ?dropped @ queries (Mysql_addColumn sampleConnection ?t1 widerToken)))"
    by (simp add: upQueries_def split: sum.splits)
  also have "map fst (queries ?dropped @ queries (Mysql_addColumn sampleConnection ?t1 widerToken))
     = [AlterTableDropColumn ''tokens'' ''token'',
        AlterTableAdd ''tokens'' [ColumnName ''token'', FullType ''varchar(64)'', NOT_NULL]]"
    by (simp add: schema_defs sample_defs token_def tokens_def widerToken_def)
  finally have my: "(case Mysql_changeColumn sampleConnection tokens (Inr ''token'') widerToken of
         Inl e \<Rightarrow> None
       | Inr out \<Rightarrow> Some (upQueries out))
     = Some [AlterTableDropColumn ''tokens'' ''token'',
             AlterTableAdd ''tokens'' [ColumnName ''token'', FullType ''varchar(64)'', NOT_NULL]]" .
  from t h2 r have pg: "Postgres_changeColumn notingMethods tokens (Inr ''token'') widerToken
         = (case dropColumn notingMethods tokens token of
              Inl e \<Rightarrow> Inl e
            | Inr (statements1, table1) \<Rightarrow>
                (case addColumn notingMethods table1 widerToken of
                   Inl e \<Rightarrow> Inl e
                 | Inr (statements2, table2) \<Rightarrow>
                     Inr \<lparr>executed = statements1 @ statements2, pushed = [],
                          cached = table2\<rparr>))"
    and ms: "SqlServer_changeColumn notingMethods tokens (Inr ''token'') widerToken
         = (case dropColumn notingMethods tokens token of
              Inl e \<Rightarrow> Inl e
            | Inr (statements1, table1) \<Rightarrow>
                (case addColumn notingMethods table1 widerToken of
                   Inl e \<Rightarrow> Inl e
                 | Inr (statements2, table2) \<Rightarrow>
                     Inr \<lparr>executed = statements1 @ statements2, pushed = [],
                          cached = table2\<rparr>))"
    by blast+
  from u h4 have "\<not> Postgres_recreatesColumn token ?inc" by blast
  with u h2 have ip: "Postgres_changeColumn notingMethods tokens (Inr ''token'') ?inc
         = (case alterInPlace notingMethods tokens token ?inc of
              Inl e \<Rightarrow> Inl e
            | Inr (statements, clonedTable) \<Rightarrow>
                Inr \<lparr>executed = statements, pushed = statements, cached = clonedTable\<rparr>)"
    by blast
  have n: "dropColumn notingMethods tokens token
        = Inr ([(''drop token'', ''add token'')], tokens\<lparr>columns := columns baseline\<rparr>)"
    "addColumn notingMethods (tokens\<lparr>columns := columns baseline\<rparr>) widerToken
        = Inr ([(''add token'', ''drop token'')],
               tokens\<lparr>columns := columns baseline @ [widerToken]\<rparr>)"
    "alterInPlace notingMethods tokens token ?inc
        = Inr ([(''alter token'', ''alter token'')], tokens)"
    by (simp_all add: notingMethods_def Table_removeColumn_def Table_addColumn_def
        sample_defs token_def tokens_def widerToken_def)
  from my h1(2) show ?thesis by (simp add: pg ms ip n)
qed

text \<open>
  Claim C6 as the specification states it does not hold: it also covers a change of the
  generation strategy. Turning \<open>token\<close> into a column generated with the \<^verbatim>\<open>uuid\<close> strategy
  changes both \<^verbatim>\<open>isGenerated\<close> and \<^verbatim>\<open>generationStrategy\<close>, and the MySQL
  \<^verbatim>\<open>changeColumn\<close> neither drops nor adds a column: it issues no statement. Nor does it
  when the strategy of the generated column changes from \<^verbatim>\<open>uuid\<close> to \<^verbatim>\<open>increment\<close>. On
  the same two changes the SQL Server runner changes the column in place, and so does the
  Postgres runner when \<open>token\<close> becomes a column generated by increment.
\<close>

theorem uuid_change_is_not_recreated:
  "column_isGenerated uuidToken \<noteq> column_isGenerated token
   \<and> column_generationStrategy uuidToken \<noteq> column_generationStrategy token
   \<and> (case Mysql_changeColumn sampleConnection tokens (Inl token) uuidToken of
         Inl e \<Rightarrow> None
       | Inr out \<Rightarrow> Some (upQueries out)) = Some []
   \<and> (case Mysql_changeColumn sampleConnection tokens (Inl uuidToken)
              (uuidToken\<lparr>column_generationStrategy := Some increment\<rparr>) of
         Inl e \<Rightarrow> None
       | Inr out \<Rightarrow> Some (upQueries out)) = Some []
   \<and> SqlServer_changeColumn notingMethods tokens (Inl token) uuidToken
     = Inr \<lparr>executed = [(''alter token'', ''alter token'')],
            pushed = [(''alter token'', ''alter token'')], cached = tokens\<rparr>
   \<and> SqlServer_changeColumn notingMethods tokens (Inl uuidToken)
         (uuidToken\<lparr>column_generationStrategy := Some increment\<rparr>)
     = Inr \<lparr>executed = [(''alter token'', ''alter token'')],
            pushed = [(''alter token'', ''alter token'')], cached = tokens\<rparr>
   \<and> Postgres_changeColumn notingMethods tokens (Inl token)
         (token\<lparr>column_isGenerated := True, column_generationStrategy := Some increment\<rparr>)
     = Inr \<lparr>executed = [(''alter token'', ''alter token'')],
            pushed = [(''alter token'', ''alter token'')], cached = tokens\<rparr>"
  by (simp add: schema_defs sample_defs token_def uuidToken_def tokens_def
      Postgres_changeColumn_def SqlServer_changeColumn_def notingMethods_def)

subsection \<open>Which table a schema method writes to\<close>

text \<open>
  Claim C10 does not hold of the code. On the table \<open>t(id int primary key, name
  varchar(50))\<close> of the MySQL runner, \<^verbatim>\<open>dropPrimaryKey\<close> makes no clone and does not call
  \<^verbatim>\<open>replaceCachedTable\<close>: it clears \<^verbatim>\<open>isPrimary\<close> of \<open>id\<close> in the table it was given.
  \<^verbatim>\<open>renameTable\<close> builds the renamed table on a clone and then writes the new name into
  the table it was given as well. \<^verbatim>\<open>changeColumn\<close>, called with the name of the column,
  renames the column \<open>name\<close> of the table it was given to \<open>label\<close>. \<^verbatim>\<open>addColumn\<close> does
  what the claim asks: the table it was given is as before, and the clone handed to
  \<^verbatim>\<open>replaceCachedTable\<close> has the new column, its index and its unique.
\<close>

theorem schema_methods_write_in_place:
  "column_isPrimary (hd (columns baseline))
   \<and> given (Mysql_dropPrimaryKey sampleConnection baseline)
       = baseline\<lparr>columns := [plainColumn ''id'' ''int'' [], plainColumn ''name'' ''varchar'' ''50'']\<rparr>
   \<and> changedTable (Mysql_dropPrimaryKey sampleConnection baseline) = None
   \<and> given (Mysql_renameTable sampleConnection baseline ''u'') = baseline\<lparr>table_name := ''u''\<rparr>
   \<and> changedTable (Mysql_renameTable sampleConnection baseline ''u'')
       = Some (baseline\<lparr>table_name := ''u''\<rparr>)
   \<and> (case Mysql_changeColumn sampleConnection baseline (Inr ''name'') label of
         Inl e \<Rightarrow> None
       | Inr out \<Rightarrow> Some (given out, changedTable out))
       = Some (baseline\<lparr>columns := [hd (columns baseline), label]\<rparr>,
               Some (baseline\<lparr>columns := [hd (columns baseline), label]\<rparr>))
   \<and> given (Mysql_addColumn sampleConnection baseline email) = baseline
   \<and> changedTable (Mysql_addColumn sampleConnection baseline email)
       = Some (baseline\<lparr>columns := columns baseline @ [email],
                 indices := [\<lparr>index_name = ''IDX_t_email'', index_columnNames = [''email''],
                               index_isUnique = True, index_isSpatial = False,
                               index_isFulltext = False, index_parser = None,
                               index_where = None\<rparr>],
                 uniques := [\<lparr>unique_name = ''IDX_t_email'',
                               unique_columnNames = [''email'']\<rparr>]\<rparr>)"
  by (simp add: schema_defs sample_defs label_def)

subsection \<open>The cascade of a column rename\<close>

text \<open>
  When the MySQL \<^verbatim>\<open>changeColumn\<close> renames a column in its second branch, every index and
  every foreign key of the table whose column list holds the old name gets a pair of
  statements that renames it to the name the naming strategy gives for the new column
  list, and is renamed in the changed table (lemma \<open>Mysql_rename_cascade\<close>; an index is
  taken out again when the same call drops the unique index of the column). None of the
  steps of that branch but the change of the unique index writes to \<^verbatim>\<open>uniques\<close>.
\<close>

lemma changePrimary_keeps:
  "changePrimary conn tn c newColumn = Inr (qs, c') \<Longrightarrow>
     indices c' = indices c \<and> foreignKeys c' = foreignKeys c \<and> uniques c' = uniques c"
  by (auto simp: changePrimary_def setIsPrimary_def Let_def split: option.splits)

lemma changeUnique_keeps:
  "changeUnique conn table c newColumn = Inr (qs, c') \<Longrightarrow>
     foreignKeys c' = foreignKeys c
     \<and> (column_isUnique newColumn \<longrightarrow> set (indices c) \<subseteq> set (indices c'))"
  by (auto simp: changeUnique_def Let_def split: option.splits if_splits)

lemma alterColumn_after_rename:
  assumes "alterColumn conn table oldColumn newColumn = Inr (qs, cloned)"
    and "column_name newColumn \<noteq> column_name oldColumn"
  shows "\<exists>renames c1 rest.
           renameColumn conn table oldColumn newColumn = Inr (renames, c1)
           \<and> qs = renames @ rest
           \<and> foreignKeys cloned = foreignKeys c1
           \<and> (column_isUnique newColumn \<or> column_isUnique newColumn = column_isUnique oldColumn
                \<longrightarrow> set (indices c1) \<subseteq> set (indices cloned))"
proof -
  from assms obtain renames c1 where
    r: "renameColumn conn table oldColumn newColumn = Inr (renames, c1)"
    by (cases "renameColumn conn table oldColumn newColumn")
       (auto simp: alterColumn_def Let_def)
  let ?old = "oldColumn\<lparr>column_name := column_name newColumn\<rparr>"
  let ?p = "if column_isPrimary newColumn \<noteq> column_isPrimary ?old
            then changePrimary conn (table_name table) c1 newColumn else Inr ([], c1)"
  from assms r obtain primary c2 where p: "?p = Inr (primary, c2)"
    by (cases ?p) (auto simp: alterColumn_def Let_def)
  let ?u = "if column_isUnique newColumn \<noteq> column_isUnique ?old
            then changeUnique conn table c2 newColumn else Inr ([], c2)"
  from assms r p obtain unique c3 where u: "?u = Inr (unique, c3)"
    by (cases ?u) (auto simp: alterColumn_def Let_def)
  from assms r p u have q: "cloned = c3" "\<exists>rest. qs = renames @ rest"
    by (auto simp: alterColumn_def Let_def)
  from p have k2: "indices c2 = indices c1 \<and> foreignKeys c2 = foreignKeys c1"
    by (auto split: if_splits dest: changePrimary_keeps)
  from u have k3: "foreignKeys c3 = foreignKeys c2
      \<and> (column_isUnique newColumn \<or> column_isUnique newColumn = column_isUnique oldColumn
           \<longrightarrow> set (indices c2) \<subseteq> set (indices c3))"
    by (auto split: if_splits dest: changeUnique_keeps)
  from r q k2 k3 show ?thesis by auto
qed

lemma renameColumn_result:
  assumes "renameColumn conn table oldColumn newColumn = Inr (renames, c1)"
  shows "indices c1 = map (\<lambda>index. if column_name oldColumn \<in> set (index_columnNames index)
                             then renameIndex conn (table_name table) (column_name oldColumn)
                                    (column_name newColumn) index
                             else index) (indices table)"
    and "foreignKeys c1 = map (\<lambda>fk. if column_name oldColumn \<in> set (foreignKey_columnNames fk)
                             then renameForeignKey conn (table_name table) (column_name oldColumn)
                                    (column_name newColumn) fk
                             else fk) (foreignKeys table)"
    and "uniques c1 = uniques table"
    and "set (map (renameIndexQueries conn (table_name table) (column_name oldColumn)
                (column_name newColumn)) (findColumnIndices table oldColumn)) \<subseteq> set renames"
    and "set (map (renameForeignKeyQueries conn (table_name table) (column_name oldColumn)
                (column_name newColumn)) (findColumnForeignKeys table oldColumn)) \<subseteq> set renames"
  using assms
  by (auto simp: renameColumn_def Let_def split: option.splits)

lemma Mysql_rename_cascade:
  assumes "resolveColumn table oldColumnOrName = Some oldColumn"
    and "\<not> Mysql_recreatesColumn oldColumn newColumn"
    and "column_name newColumn \<noteq> column_name oldColumn"
    and "Mysql_changeColumn conn table oldColumnOrName newColumn = Inr out"
  shows "(\<forall>index \<in> set (indices table).
            column_name oldColumn \<in> set (index_columnNames index) \<longrightarrow>
              renameIndexQueries conn (table_name table) (column_name oldColumn)
                (column_name newColumn) index \<in> set (queries out)
              \<and> (column_isUnique newColumn
                    \<or> column_isUnique newColumn = column_isUnique oldColumn
                  \<longrightarrow> renameIndex conn (table_name table) (column_name oldColumn)
                        (column_name newColumn) index \<in> set (indices (the (changedTable out)))))
       \<and> (\<forall>fk \<in> set (foreignKeys table).
            column_name oldColumn \<in> set (foreignKey_columnNames fk) \<longrightarrow>
              renameForeignKeyQueries conn (table_name table) (column_name oldColumn)
                (column_name newColumn) fk \<in> set (queries out)
              \<and> renameForeignKey conn (table_name table) (column_name oldColumn)
                  (column_name newColumn) fk \<in> set (foreignKeys (the (changedTable out))))"
proof -
  from assms obtain qs cloned where
    a: "alterColumn conn table oldColumn newColumn = Inr (qs, cloned)"
    and o: "queries out = qs" "changedTable out = Some cloned"
    by (cases "alterColumn conn table oldColumn newColumn")
       (auto simp: Mysql_changeColumn_def)
  from alterColumn_after_rename [OF a assms(3)] obtain renames c1 rest where
    r: "renameColumn conn table oldColumn newColumn = Inr (renames, c1)"
    and q: "qs = renames @ rest"
    and f: "foreignKeys cloned = foreignKeys c1"
    and i: "column_isUnique newColumn \<or> column_isUnique newColumn = column_isUnique oldColumn
              \<longrightarrow> set (indices c1) \<subseteq> set (indices cloned)"
    by blast
  note rr = renameColumn_result [OF r]
  have idx: "renameIndexQueries conn (table_name table) (column_name oldColumn)
               (column_name newColumn) index \<in> set (queries out)
             \<and> (column_isUnique newColumn \<or> column_isUnique newColumn = column_isUnique oldColumn
                 \<longrightarrow> renameIndex conn (table_name table) (column_name oldColumn)
                       (column_name newColumn) index \<in> set (indices (the (changedTable out))))"
    if "index \<in> set (indices table)" "column_name oldColumn \<in> set (index_columnNames index)"
    for index
  proof -
    from that have "renameIndexQueries conn (table_name table) (column_name oldColumn)
               (column_name newColumn) index \<in> set renames"
      using rr(4) by (auto simp: findColumnIndices_def)
    moreover from that have "renameIndex conn (table_name table) (column_name oldColumn)
               (column_name newColumn) index \<in> set (indices c1)"
      unfolding rr(1) by force
    ultimately show ?thesis using o q i by auto
  qed
  have fks: "renameForeignKeyQueries conn (table_name table) (column_name oldColumn)
               (column_name newColumn) fk \<in> set (queries out)
             \<and> renameForeignKey conn (table_name table) (column_name oldColumn)
                 (column_name newColumn) fk \<in> set (foreignKeys (the (changedTable out)))"
    if "fk \<in> set (foreignKeys table)" "column_name oldColumn \<in> set (foreignKey_columnNames fk)"
    for fk
  proof -
    from that have "renameForeignKeyQueries conn (table_name table) (column_name oldColumn)
               (column_name newColumn) fk \<in> set renames"
      using rr(5) by (auto simp: findColumnForeignKeys_def)
    moreover from that have "renameForeignKey conn (table_name table) (column_name oldColumn)
               (column_name newColumn) fk \<in> set (foreignKeys c1)"
      unfolding rr(2) by force
    ultimately show ?thesis using o q f by auto
  qed
  from idx fks show ?thesis by blast
qed

text \<open>
  Claim C7 does not hold of the code. \<^verbatim>\<open>addColumn\<close> of the unique column \<open>email\<close> on the
  MySQL runner leaves a unique index and an entry of \<^verbatim>\<open>uniques\<close> of the same name
  \<open>IDX_t_email\<close>, both on \<open>email\<close>. The rename of \<open>email\<close> to \<open>mail\<close> pushes the rename of
  the column and of the index and nothing else; in the changed table the index is
  \<open>IDX_t_mail\<close> on \<open>mail\<close>, and the entry of \<^verbatim>\<open>uniques\<close> keeps the name \<open>IDX_t_email\<close> and
  the column list \<open>email\<close>: a unique that references the renamed column is not renamed.
\<close>

theorem unique_entry_is_not_renamed:
  "(case Mysql_changeColumn sampleConnection withEmail (Inr ''email'')
           (email\<lparr>column_name := ''mail''\<rparr>) of
      Inl e \<Rightarrow> None
    | Inr out \<Rightarrow>
        Some (upQueries out,
              map index_name (indices (the (changedTable out))),
              uniques (the (changedTable out))))
   = Some ([AlterTableChange ''t'' ''email''
              [ColumnName ''mail'', FullType ''varchar(255)'', NOT_NULL],
            AlterTableDropAddIndex ''t'' ''IDX_t_email'' ''UNIQUE '' ''IDX_t_mail'' [''mail''] []],
           [''IDX_t_mail''],
           [\<lparr>unique_name = ''IDX_t_email'', unique_columnNames = [''email'']\<rparr>])"
  by (simp add: schema_defs sample_defs withEmail_def)

subsection \<open>AUTO_INCREMENT around a change of the primary key\<close>

text \<open>
  When the table has an increment-generated column \<open>g\<close>, the statements that the
  \<^verbatim>\<open>isPrimary\<close> branch of \<^verbatim>\<open>changeColumn\<close> and \<^verbatim>\<open>updatePrimaryKeys\<close> push begin with
  the statement that redefines \<open>g\<close> without \<^verbatim>\<open>AUTO_INCREMENT\<close> and end with the one that
  redefines it with \<^verbatim>\<open>AUTO_INCREMENT\<close>, with nothing but \<^verbatim>\<open>DROP PRIMARY KEY\<close> and
  \<^verbatim>\<open>ADD PRIMARY KEY\<close> between them (lemmas \<open>changePrimary_block\<close> and
  \<open>updatePrimaryKeys_block\<close>). In every state before the last statement of such a block,
  run in its order or, for the inverses, in the reversed order, \<open>g\<close> does not carry
  \<^verbatim>\<open>AUTO_INCREMENT\<close> (lemma \<open>block_states\<close>). Nothing in the block makes the restoring
  statement depend on \<open>g\<close> being a column of the new primary key.
\<close>

lemma AUTO_INCREMENT_isIncrement:
  "AUTO_INCREMENT \<in> set (buildCreateColumnSql conn column skipPrimary skipName)
     \<Longrightarrow> isIncrement column"
  unfolding buildCreateColumnSql_def set_append Un_iff
  by (elim disjE) (auto simp: isIncrement_def split: if_splits option.splits)

lemma nonGenerated_no_AUTO_INCREMENT:
  "AUTO_INCREMENT \<notin> set (buildCreateColumnSql conn (nonGenerated g) skipPrimary skipName)"
  using AUTO_INCREMENT_isIncrement [of conn "nonGenerated g" skipPrimary skipName]
  by (auto simp: isIncrement_def nonGenerated_def)

lemma isIncrement_AUTO_INCREMENT:
  "isIncrement g \<Longrightarrow> AUTO_INCREMENT \<in> set (buildCreateColumnSql conn g skipPrimary skipName)"
  unfolding buildCreateColumnSql_def set_append Un_iff
  by (simp add: isIncrement_def split del: if_split)

lemma definedName_buildCreateColumnSql:
  "definedName old (buildCreateColumnSql conn column skipPrimary False) = column_name column"
  by (simp add: buildCreateColumnSql_def definedName_def split del: if_split)

lemma statesAfter_Nil:
  "statesAfter qs s = [] \<longleftrightarrow> qs = []"
  by (cases qs) auto

lemma butlast_statesAfter:
  "butlast (statesAfter (qs @ [q]) s) = statesAfter qs s"
  by (induction qs arbitrary: s) (auto simp: statesAfter_Nil)

lemma primaryKeyQuery_keeps_autoIncrement:
  "isPrimaryKeyQuery q \<Longrightarrow> autoIncrement (applyQuery q s) = autoIncrement s"
  by (cases q) (auto simp: isPrimaryKeyQuery_def)

lemma primaryKeyQueries_keep_autoIncrement:
  "list_all isPrimaryKeyQuery qs \<Longrightarrow>
     list_all (\<lambda>s'. autoIncrement s' = autoIncrement s) (statesAfter qs s)"
proof (induction qs arbitrary: s)
  case Nil
  then show ?case by simp
next
  case (Cons q qs)
  then have k: "autoIncrement (applyQuery q s) = autoIncrement s"
    by (simp add: primaryKeyQuery_keeps_autoIncrement)
  from Cons have "list_all (\<lambda>s'. autoIncrement s' = autoIncrement (applyQuery q s))
                    (statesAfter qs (applyQuery q s))"
    by simp
  with k show ?case by simp
qed

lemma between_strip_and_restore:
  assumes "list_all isPrimaryKeyQuery mid"
    and "strip = AlterTableChange tn (column_name g)
                   (buildCreateColumnSql conn (nonGenerated g) True False)"
  shows "list_all (\<lambda>s. column_name g \<notin> set (autoIncrement s)
                     \<and> (set (autoIncrement start) \<subseteq> {column_name g} \<longrightarrow> covered s))
           (butlast (statesAfter (strip # mid @ [final]) start))"
proof -
  define s1 where "s1 = applyQuery strip start"
  have a: "autoIncrement s1 = filter (\<lambda>c. c \<noteq> column_name g) (autoIncrement start)"
    unfolding s1_def assms(2) by (simp add: nonGenerated_no_AUTO_INCREMENT)
  have "butlast (statesAfter ((strip # mid) @ [final]) start) = statesAfter (strip # mid) start"
    by (rule butlast_statesAfter)
  then have b: "butlast (statesAfter (strip # mid @ [final]) start) = s1 # statesAfter mid s1"
    by (simp add: s1_def)
  have c: "\<forall>s' \<in> set (statesAfter mid s1). autoIncrement s' = autoIncrement s1"
    using primaryKeyQueries_keep_autoIncrement [OF assms(1), of s1]
    by (simp add: list_all_iff)
  have "\<forall>s' \<in> set (s1 # statesAfter mid s1).
          column_name g \<notin> set (autoIncrement s')
          \<and> (set (autoIncrement start) \<subseteq> {column_name g} \<longrightarrow> covered s')"
  proof
    fix s'
    assume "s' \<in> set (s1 # statesAfter mid s1)"
    then have "autoIncrement s' = autoIncrement s1" using c by auto
    with a have e: "autoIncrement s' = filter (\<lambda>c. c \<noteq> column_name g) (autoIncrement start)"
      by simp
    have "set (autoIncrement start) \<subseteq> {column_name g} \<Longrightarrow> autoIncrement s' = []"
      unfolding e by (auto simp: filter_empty_conv)
    then have "set (autoIncrement start) \<subseteq> {column_name g} \<longrightarrow> covered s'"
      by (simp add: covered_def)
    with e show "column_name g \<notin> set (autoIncrement s')
          \<and> (set (autoIncrement start) \<subseteq> {column_name g} \<longrightarrow> covered s')"
      by simp
  qed
  then show ?thesis unfolding b list_all_iff .
qed

lemma block_states:
  assumes "block = dropAutoIncrement conn tn g # mid @ [restoreAutoIncrement conn tn g]"
    and "list_all (\<lambda>(u, d). isPrimaryKeyQuery u \<and> isPrimaryKeyQuery d) mid"
  shows "list_all (\<lambda>s. column_name g \<notin> set (autoIncrement s)
                     \<and> (set (autoIncrement start) \<subseteq> {column_name g} \<longrightarrow> covered s))
           (butlast (statesAfter (map fst block) start))"
    and "list_all (\<lambda>s. column_name g \<notin> set (autoIncrement s)
                     \<and> (set (autoIncrement start) \<subseteq> {column_name g} \<longrightarrow> covered s))
           (butlast (statesAfter (rev (map snd block)) start))"
proof -
  let ?strip = "AlterTableChange tn (column_name g)
                  (buildCreateColumnSql conn (nonGenerated g) True False)"
  let ?restore = "AlterTableChange tn (column_name g) (buildCreateColumnSql conn g True False)"
  from assms(2) have u: "list_all isPrimaryKeyQuery (map fst mid)"
    and d: "list_all isPrimaryKeyQuery (rev (map snd mid))"
    by (auto simp: list_all_iff)
  have n: "column_name (nonGenerated g) = column_name g"
    by (simp add: nonGenerated_def)
  have up: "map fst block = ?strip # map fst mid @ [?restore]"
    unfolding assms(1) dropAutoIncrement_def restoreAutoIncrement_def n by simp
  have down: "rev (map snd block) = ?strip # rev (map snd mid) @ [?restore]"
    unfolding assms(1) dropAutoIncrement_def restoreAutoIncrement_def n by simp
  show "list_all (\<lambda>s. column_name g \<notin> set (autoIncrement s)
                     \<and> (set (autoIncrement start) \<subseteq> {column_name g} \<longrightarrow> covered s))
           (butlast (statesAfter (map fst block) start))"
    unfolding up by (rule between_strip_and_restore [OF u refl])
  show "list_all (\<lambda>s. column_name g \<notin> set (autoIncrement s)
                     \<and> (set (autoIncrement start) \<subseteq> {column_name g} \<longrightarrow> covered s))
           (butlast (statesAfter (rev (map snd block)) start))"
    unfolding down by (rule between_strip_and_restore [OF d refl])
qed

lemma changePrimary_block:
  assumes "find isIncrement (columns clonedTable) = Some g"
    and "changePrimary conn tn clonedTable newColumn = Inr (block, c')"
  shows "\<exists>mid. block = dropAutoIncrement conn tn g # mid @ [restoreAutoIncrement conn tn g]
           \<and> list_all (\<lambda>(u, d). isPrimaryKeyQuery u \<and> isPrimaryKeyQuery d) mid"
  using assms
  by (auto simp: changePrimary_def Let_def isPrimaryKeyQuery_def split: option.splits if_splits)

lemma updatePrimaryKeys_block:
  assumes "find isIncrement (columns table) = Some g"
    and "Mysql_updatePrimaryKeys conn table primaries = Inr out"
  shows "\<exists>mid. queries out = dropAutoIncrement conn (table_name table) g # mid
                               @ [restoreAutoIncrement conn (table_name table) g]
           \<and> list_all (\<lambda>(u, d). isPrimaryKeyQuery u \<and> isPrimaryKeyQuery d) mid"
  using assms
  by (auto simp: Mysql_updatePrimaryKeys_def Let_def isPrimaryKeyQuery_def
      split: option.splits if_splits)

text \<open>
  Claim C8 does not hold of the code. \<open>identityTable\<close> has the increment-generated column
  \<open>id\<close> as its primary key, and its state is covered.

  \<^verbatim>\<open>changeColumn\<close> with \<open>id\<close> no longer primary and now unique pushes four statements:
  the first takes \<^verbatim>\<open>AUTO_INCREMENT\<close> off \<open>id\<close>, the second drops the primary key, the
  third restores \<^verbatim>\<open>AUTO_INCREMENT\<close> on \<open>id\<close> although no \<^verbatim>\<open>ADD PRIMARY KEY\<close> has run, and
  the fourth adds the unique index. The states after the third and the fourth statement
  have \<^verbatim>\<open>AUTO_INCREMENT\<close> on a column that no primary key covers.

  \<^verbatim>\<open>addColumn\<close> of a second primary column \<open>code\<close> pushes five statements. The one meant
  to take \<^verbatim>\<open>AUTO_INCREMENT\<close> off \<open>id\<close> is written \<^verbatim>\<open>CHANGE `code`\<close>, with the name of the
  new column, so \<open>id\<close> keeps \<^verbatim>\<open>AUTO_INCREMENT\<close> when \<^verbatim>\<open>DROP PRIMARY KEY\<close> runs; the one
  meant to restore it redefines \<open>id\<close> with the definition of \<open>code\<close>.
\<close>

theorem identity_restored_without_primary_key:
  "covered (keyStateOf identityTable)
   \<and> (case Mysql_changeColumn sampleConnection identityTable (Inr ''id'')
              (idColumn\<lparr>column_isPrimary := False, column_isUnique := True\<rparr>) of
         Inl e \<Rightarrow> None
       | Inr out \<Rightarrow>
           Some (upQueries out,
                 map covered (statesAfter (upQueries out) (keyStateOf identityTable))))
     = Some ([AlterTableChange ''t'' ''id'' [ColumnName ''id'', FullType ''int'', NOT_NULL],
              AlterTableDropPrimaryKey ''t'',
              AlterTableChange ''t'' ''id''
                [ColumnName ''id'', FullType ''int'', NOT_NULL, AUTO_INCREMENT],
              AlterTableAddUniqueIndex ''t'' ''IDX_t_id'' ''id''],
             [True, True, False, False])
   \<and> upQueries (Mysql_addColumn sampleConnection identityTable code)
     = [AlterTableAdd ''t'' [ColumnName ''code'', FullType ''int'', NOT_NULL],
        AlterTableChange ''t'' ''code'' [ColumnName ''id'', FullType ''int'', NOT_NULL],
        AlterTableDropPrimaryKey ''t'',
        AlterTableAddPrimaryKey ''t'' [''id'', ''code''],
        AlterTableChange ''t'' ''id'' [ColumnName ''code'', FullType ''int'', NOT_NULL]]
   \<and> map covered (statesAfter (upQueries (Mysql_addColumn sampleConnection identityTable code))
                    (keyStateOf identityTable))
     = [True, True, False, True, True]"
  by (simp add: schema_defs sample_defs idColumn_def identityTable_def code_def keyStateOf_def
      covered_def definedName_def)

section \<open>Properties of query admission\<close>

lemmas admission_defs = call_def resume_def callback_def execute_def resolveChain_def
  splice_def SqlServer_pool_def idle_def freshRunner_def quietDriver_def Let_def

text \<open>
  A call made while the chain is not empty sends nothing and awaits every promise that
  is in the chain at that moment; its continuation sends its statement only when all of
  them are resolved.
\<close>

lemma call_awaits_chain:
  assumes "stage a i = NotCalled" and "\<not> isReleased (runner a)"
    and "queryResponsibilityChain a \<noteq> []"
  shows "stage (step env (Call i q) a) i = AwaitsChain q (queryResponsibilityChain a)"
    and "sent (runner (step env (Call i q) a)) = sent (runner a)"
  using assms by (simp_all add: call_def)

lemma awaitAll_Resolved:
  "awaitAll st ps = Resolved \<longleftrightarrow> list_all (\<lambda>p. st p = Resolved) ps"
  by (induction ps) (auto split: Settlement.splits)

lemma resume_sends_after_all_resolved:
  assumes "stage a i = AwaitsChain q others"
    and "sent (runner (step env (Resume i) a)) \<noteq> sent (runner a)"
  shows "list_all (\<lambda>p. settlement a p = Resolved) others"
proof -
  from assms have "awaitAll (settlement a) others = Resolved"
    by (cases "awaitAll (settlement a) others") (auto simp: resume_def)
  then show ?thesis by (simp add: awaitAll_Resolved)
qed

text \<open>
  Two calls in a row, the first of which succeeds: the second statement reaches the
  driver after the first, and the chain is empty at the end.
\<close>

lemma queued_sibling_runs_after_success:
  "(let a = run quietDriver [Call 1 q1, Call 2 q2, Callback 1 (Inr rows1), Resume 2,
                             Callback 2 (Inr rows2)] idle
    in sent (runner a) = [q1, q2]
       \<and> stage a 1 = Returned (Inr rows1)
       \<and> stage a 2 = Returned (Inr rows2)
       \<and> queryResponsibilityChain a = [])"
  by (simp add: admission_defs)

text \<open>
  A runner is stuck on the promise \<open>w\<close> when \<open>w\<close> is pending and in the chain, no call is
  in flight, and every suspended call awaits \<open>w\<close>. No event changes that, and no event
  sends a statement.
\<close>

lemma awaitAll_Pending:
  "p \<in> set ps \<Longrightarrow> st p = Pending \<Longrightarrow> awaitAll st ps \<noteq> Resolved"
  by (induction ps) (auto split: Settlement.splits)

lemma step_stuck:
  assumes w: "w \<in> set (queryResponsibilityChain a)" "settlement a w = Pending"
    and s: "\<forall>i. case stage a i of
                   InFlight q \<Rightarrow> False
                 | AwaitsChain q others \<Rightarrow> w \<in> set others
                 | _ \<Rightarrow> True"
  shows "w \<in> set (queryResponsibilityChain (step env e a))
         \<and> settlement (step env e a) w = Pending
         \<and> (\<forall>i. case stage (step env e a) i of
                    InFlight q \<Rightarrow> False
                  | AwaitsChain q others \<Rightarrow> w \<in> set others
                  | _ \<Rightarrow> True)
         \<and> sent (runner (step env e a)) = sent (runner a)"
proof (cases e)
  case (Call k q)
  from w have "queryResponsibilityChain a \<noteq> []" by auto
  with w s show ?thesis unfolding Call by (simp add: call_def)
next
  case (Resume k)
  show ?thesis
  proof (cases "stage a k")
    case (AwaitsChain q others)
    from s have "case stage a k of InFlight q \<Rightarrow> False
                 | AwaitsChain q others \<Rightarrow> w \<in> set others | _ \<Rightarrow> True" ..
    with AwaitsChain have "w \<in> set others" by simp
    with w have n: "awaitAll (settlement a) others \<noteq> Resolved"
      by (simp add: awaitAll_Pending)
    show ?thesis
    proof (cases "awaitAll (settlement a) others")
      case Pending
      with AwaitsChain w s show ?thesis unfolding Resume by (simp add: resume_def)
    next
      case Resolved
      with n show ?thesis by simp
    next
      case (Rejected err)
      with AwaitsChain w s show ?thesis unfolding Resume by (simp add: resume_def)
    qed
  qed (use w s in \<open>simp_all add: Resume resume_def\<close>)
next
  case (Callback k answer)
  from s have "case stage a k of InFlight q \<Rightarrow> False
               | AwaitsChain q others \<Rightarrow> w \<in> set others | _ \<Rightarrow> True" ..
  then have "callback k answer a = a"
    by (cases "stage a k") (simp_all add: callback_def)
  with w s show ?thesis unfolding Callback by simp
qed

lemma run_stuck:
  assumes "w \<in> set (queryResponsibilityChain a)" and "settlement a w = Pending"
    and "\<forall>i. case stage a i of
                 InFlight q \<Rightarrow> False
               | AwaitsChain q others \<Rightarrow> w \<in> set others
               | _ \<Rightarrow> True"
  shows "sent (runner (run env es a)) = sent (runner a)"
  using assms
proof (induction es arbitrary: a)
  case Nil
  show ?case by simp
next
  case (Cons e es)
  note k = step_stuck [OF Cons.prems, of env e]
  from k have "sent (runner (run env es (step env e a))) = sent (runner (step env e a))"
    by (intro Cons.IH) simp_all
  with k show ?case by simp
qed

text \<open>
  Claim C5 does not hold of the code. Two calls are made in a row on an idle runner and
  the driver answers the first statement with an error. The second call, suspended at
  \<^verbatim>\<open>await Promise.all\<close> on the \<^verbatim>\<open>promise\<close> of the first, is rejected with the
  \<^verbatim>\<open>QueryFailedError\<close> of the first statement, and its own statement never reaches the
  driver. Its \<^verbatim>\<open>waitingPromise\<close> stays in the chain and is never resolved, so whatever
  events follow, no further statement reaches the driver through this runner.
\<close>

theorem failed_query_cancels_queued_sibling:
  "(let a = run quietDriver [Call 1 q1, Call 2 q2, Callback 1 (Inl err), Resume 2] idle
    in stage a 1 = Returned (Inl (QueryFailedError q1 err))
       \<and> stage a 2 = Returned (Inl (QueryFailedError q1 err))
       \<and> sent (runner a) = [q1]
       \<and> queryResponsibilityChain a = [waitingPromise 2]
       \<and> settlement a (waitingPromise 2) = Pending)
   \<and> sent (runner (run quietDriver
              ([Call 1 q1, Call 2 q2, Callback 1 (Inl err), Resume 2] @ later) idle)) = [q1]"
proof -
  let ?a = "run quietDriver [Call 1 q1, Call 2 q2, Callback 1 (Inl err), Resume 2] idle"
  have c: "queryResponsibilityChain ?a = [waitingPromise 2]"
    "settlement ?a (waitingPromise 2) = Pending"
    "sent (runner ?a) = [q1]"
    "stage ?a 1 = Returned (Inl (QueryFailedError q1 err))"
    "stage ?a 2 = Returned (Inl (QueryFailedError q1 err))"
    by (simp_all add: admission_defs)
  have s: "\<forall>i. case stage ?a i of
                 InFlight q \<Rightarrow> False
               | AwaitsChain q others \<Rightarrow> waitingPromise 2 \<in> set others
               | _ \<Rightarrow> True"
    by (simp add: admission_defs)
  have r: "run env (xs @ ys) a = run env ys (run env xs a)" for env xs ys a
    by (induction xs arbitrary: a) simp_all
  have "sent (runner (run quietDriver later ?a)) = sent (runner ?a)"
  proof (rule run_stuck [where w = "waitingPromise 2"])
    show "waitingPromise 2 \<in> set (queryResponsibilityChain ?a)"
      unfolding c(1) by simp
    show "settlement ?a (waitingPromise 2) = Pending"
      by (rule c(2))
    show "\<forall>i. case stage ?a i of
                 InFlight q \<Rightarrow> False
               | AwaitsChain q others \<Rightarrow> waitingPromise 2 \<in> set others
               | _ \<Rightarrow> True"
      by (rule s)
  qed
  with c show ?thesis unfolding r Let_def by simp
qed

end
